theory Spec2Isabelle
  imports Complex_Main "HOL-Library.Char_ord" "HOL-Library.List_Lexorder"
begin

section \<open>Values held by the data frames\<close>

text \<open>
  The numeric columns of the pipeline are pandas float64 columns.  A cell is a finite
  number, one of the two infinities, or NaN (which pandas also uses for a missing value).
  Finite values are modelled as exact reals: the rounding of the binary format is not
  part of the model, the special values and their propagation are.  Overflow to an
  infinity is modelled where a sum can reach it from inputs of ordinary size, in the sum
  of a column and in the sell-through rate (see \<open>overflow\<close> below); the other operations
  are exact on finite values.
\<close>

datatype float64 = Fin real | PosInf | NegInf | NaN

text \<open>
  The \<open>SKU\<close> column as the spreadsheet reader delivers it: a whole number or a text.
  A column holding both kinds is an object column whose cells keep their own type.
  Empty and fractional identifier cells are not part of the model.
\<close>

datatype key = KInt int | KStr string

text \<open>
  A cell of an inventory column that the code uses as a number.  A workbook may hold
  text there; column presence is all that is checked before \<open>process_inventory\<close> runs.
\<close>

datatype cell = Num float64 | Text string

text \<open>
  A cell of the \<open>Date\<close> column: a timestamp (nanoseconds since the epoch, as in
  datetime64[ns]), a text still to be parsed, or NaT.
\<close>

datatype date_cell = DateTime int | DateStr string | NaT

datatype error = TypeError

record sales_row =
  s_SKU :: key
  Date :: date_cell
  Units_Sold :: float64
  Revenue :: float64

record inventory_row =
  SKU :: key
  Current_Stock :: cell
  Cost_Price :: cell
  Margin :: cell

text \<open>One row of \<open>sales_grouped\<close> (after the columns are renamed, lines 45-60).\<close>

record rollup_row =
  g_SKU :: key
  g_Total_Units_Sold :: float64
  g_Total_Revenue :: float64
  g_Min_Date :: date_cell
  g_Max_Date :: date_cell
  g_Period_Days :: int
  g_Avg_Daily_Velocity :: float64

text \<open>One row of \<open>merged_df\<close> right after the merge and the three \<open>fillna\<close> calls.\<close>

record merged_row = inventory_row +
  Total_Units_Sold :: float64
  Total_Revenue :: float64
  Min_Date :: date_cell
  Max_Date :: date_cell
  Period_Days :: float64
  Avg_Daily_Velocity :: float64

text \<open>One row of the returned table.\<close>

record enriched_row = merged_row +
  Days_of_Cover :: float64
  Sell_Through_Rate :: float64
  Selling_Price :: float64
  Stock_Value :: float64
  Death_Risk_Base :: float64
  Risk_Penalty :: int
  Death_Risk_Score :: float64

section \<open>Arithmetic on float64\<close>

fun f_neg :: "float64 \<Rightarrow> float64" where
  "f_neg (Fin a) = Fin (- a)"
| "f_neg PosInf = NegInf"
| "f_neg NegInf = PosInf"
| "f_neg NaN = NaN"

fun f_add :: "float64 \<Rightarrow> float64 \<Rightarrow> float64" where
  "f_add NaN _ = NaN"
| "f_add _ NaN = NaN"
| "f_add (Fin a) (Fin b) = Fin (a + b)"
| "f_add PosInf NegInf = NaN"
| "f_add NegInf PosInf = NaN"
| "f_add PosInf _ = PosInf"
| "f_add NegInf _ = NegInf"
| "f_add (Fin a) PosInf = PosInf"
| "f_add (Fin a) NegInf = NegInf"

definition f_sub :: "float64 \<Rightarrow> float64 \<Rightarrow> float64" where
  "f_sub x y = f_add x (f_neg y)"

text \<open>An infinity of the sign of \<open>s\<close>; NaN when \<open>s\<close> is zero.\<close>

definition signed_inf :: "real \<Rightarrow> float64" where
  "signed_inf s = (if s = 0 then NaN else if 0 < s then PosInf else NegInf)"

fun f_mul :: "float64 \<Rightarrow> float64 \<Rightarrow> float64" where
  "f_mul NaN _ = NaN"
| "f_mul _ NaN = NaN"
| "f_mul (Fin a) (Fin b) = Fin (a * b)"
| "f_mul (Fin a) PosInf = signed_inf a"
| "f_mul (Fin a) NegInf = signed_inf (- a)"
| "f_mul PosInf (Fin b) = signed_inf b"
| "f_mul NegInf (Fin b) = signed_inf (- b)"
| "f_mul PosInf PosInf = PosInf"
| "f_mul NegInf NegInf = PosInf"
| "f_mul PosInf NegInf = NegInf"
| "f_mul NegInf PosInf = NegInf"

text \<open>
  Division of float64 columns does not raise: a finite value over zero is an infinity
  (or NaN for zero over zero).  The only zero divisor the pipeline can meet is
  \<open>1 - Margin\<close>, a positive zero.
\<close>

fun f_div :: "float64 \<Rightarrow> float64 \<Rightarrow> float64" where
  "f_div NaN _ = NaN"
| "f_div _ NaN = NaN"
| "f_div (Fin a) (Fin b) = (if b = 0 then signed_inf a else Fin (a / b))"
| "f_div (Fin a) PosInf = Fin 0"
| "f_div (Fin a) NegInf = Fin 0"
| "f_div PosInf (Fin b) = (if 0 \<le> b then PosInf else NegInf)"
| "f_div NegInf (Fin b) = (if 0 \<le> b then NegInf else PosInf)"
| "f_div PosInf _ = NaN"
| "f_div NegInf _ = NaN"

text \<open>Comparison: every comparison with NaN is false.\<close>

fun f_less :: "float64 \<Rightarrow> float64 \<Rightarrow> bool" where
  "f_less NaN _ = False"
| "f_less _ NaN = False"
| "f_less (Fin a) (Fin b) = (a < b)"
| "f_less NegInf NegInf = False"
| "f_less NegInf _ = True"
| "f_less PosInf _ = False"
| "f_less (Fin a) PosInf = True"
| "f_less (Fin a) NegInf = False"

definition f_le :: "float64 \<Rightarrow> float64 \<Rightarrow> bool" where
  "f_le x y = (x \<noteq> NaN \<and> y \<noteq> NaN \<and> \<not> f_less y x)"

definition fillna :: "float64 \<Rightarrow> float64 \<Rightarrow> float64" where
  "fillna v x = (if x = NaN then v else x)"

text \<open>\<open>Series.replace(a, b)\<close> on one cell.\<close>

definition replace_val :: "float64 \<Rightarrow> float64 \<Rightarrow> float64 \<Rightarrow> float64" where
  "replace_val a b x = (if x = a then b else x)"

definition logistic :: "real \<Rightarrow> real" where
  "logistic x = 1 / (1 + exp (- x))"

text \<open>\<open>scipy.special.expit\<close> on one cell.\<close>

fun expit :: "float64 \<Rightarrow> float64" where
  "expit (Fin x) = Fin (logistic x)"
| "expit PosInf = Fin 1"
| "expit NegInf = Fin 0"
| "expit NaN = NaN"

text \<open>\<open>Series.clip(lo, hi)\<close> on one cell; NaN stays NaN.\<close>

fun clip :: "real \<Rightarrow> real \<Rightarrow> float64 \<Rightarrow> float64" where
  "clip lo hi (Fin x) = Fin (min hi (max lo x))"
| "clip lo hi PosInf = Fin hi"
| "clip lo hi NegInf = Fin lo"
| "clip lo hi NaN = NaN"

text \<open>
  The largest finite float64, \<open>(2 - 2\<^sup>-\<^sup>5\<^sup>2) * 2\<^sup>1\<^sup>0\<^sup>2\<^sup>3\<close>.  A result beyond it is an
  infinity.
\<close>

definition float_max :: real where
  "float_max = (2 ^ 53 - 1) * 2 ^ 971"

fun overflow :: "float64 \<Rightarrow> float64" where
  "overflow (Fin x) =
     (if float_max < x then PosInf else if x < - float_max then NegInf else Fin x)"
| "overflow PosInf = PosInf"
| "overflow NegInf = NegInf"
| "overflow NaN = NaN"

text \<open>
  Sum of a float64 column with \<open>skipna\<close>: NaN cells are left out, an empty sum is 0, and
  the running sum overflows to an infinity when it leaves the range of the format.
  (A column of integer type, whose sum wraps around instead, is not modelled.)
\<close>

definition nansum :: "float64 list \<Rightarrow> float64" where
  "nansum xs = foldl (\<lambda>acc x. overflow (f_add acc x)) (Fin 0) (filter (\<lambda>x. x \<noteq> NaN) xs)"

section \<open>Date handling\<close>

text \<open>
  \<open>pd.to_datetime(column, errors='coerce')\<close> on one cell (line 41).  Timestamps stay,
  a text is parsed, what cannot be parsed becomes NaT.  The parser for texts belongs to
  pandas; it is the parameter \<open>parse\<close>.
\<close>

fun to_datetime :: "(string \<Rightarrow> int option) \<Rightarrow> date_cell \<Rightarrow> date_cell" where
  "to_datetime parse (DateTime t) = DateTime t"
| "to_datetime parse (DateStr s) = (case parse s of Some t \<Rightarrow> DateTime t | None \<Rightarrow> NaT)"
| "to_datetime parse NaT = NaT"

definition ns_per_day :: int where
  "ns_per_day = 86400000000000"

text \<open>The timestamps of a column; \<open>min\<close> and \<open>max\<close> of a group skip NaT.\<close>

fun timestamps :: "date_cell list \<Rightarrow> int list" where
  "timestamps [] = []"
| "timestamps (DateTime t # cs) = t # timestamps cs"
| "timestamps (_ # cs) = timestamps cs"

definition date_min :: "date_cell list \<Rightarrow> date_cell" where
  "date_min cs = (case timestamps cs of [] \<Rightarrow> NaT | t # ts \<Rightarrow> DateTime (fold min ts t))"

definition date_max :: "date_cell list \<Rightarrow> date_cell" where
  "date_max cs = (case timestamps cs of [] \<Rightarrow> NaT | t # ts \<Rightarrow> DateTime (fold max ts t))"

text \<open>
  \<open>(Max_Date - Min_Date).dt.days + 1\<close> (line 55): whole days of the difference, plus
  one; NaN (here \<open>None\<close>) when the dates are NaT.
\<close>

fun span_days :: "date_cell \<Rightarrow> date_cell \<Rightarrow> int option" where
  "span_days (DateTime mx) (DateTime mn) = Some ((mx - mn) div ns_per_day + 1)"
| "span_days _ _ = None"

text \<open>\<open>lambda x: x if x > 0 else 1\<close> (line 57); \<open>NaN > 0\<close> is false.\<close>

fun positive_or_one :: "int option \<Rightarrow> int" where
  "positive_or_one (Some x) = (if x > 0 then x else 1)"
| "positive_or_one None = 1"

section \<open>Item identifiers as strings\<close>

function digit_chars :: "nat \<Rightarrow> string" where
  "digit_chars n =
     (if n < 10 then [''0123456789'' ! n]
      else digit_chars (n div 10) @ [''0123456789'' ! (n mod 10)])"
  by pat_completeness auto
termination
  by (relation "measure (\<lambda>n. n)") auto

declare digit_chars.simps [simp del]

text \<open>\<open>str\<close> of a Python integer.\<close>

definition str_int :: "int \<Rightarrow> string" where
  "str_int i = (if i < 0 then CHR ''-'' # digit_chars (nat (- i)) else digit_chars (nat i))"

text \<open>\<open>astype(str)\<close> on one cell of a SKU column (lines 64-65).\<close>

fun astype_str :: "key \<Rightarrow> key" where
  "astype_str (KInt i) = KStr (str_int i)"
| "astype_str (KStr s) = KStr s"

section \<open>Aggregation of the sales table\<close>

fun int_keys :: "key list \<Rightarrow> int list" where
  "int_keys [] = []"
| "int_keys (KInt i # ks) = i # int_keys ks"
| "int_keys (KStr s # ks) = int_keys ks"

fun str_keys :: "key list \<Rightarrow> string list" where
  "str_keys [] = []"
| "str_keys (KInt i # ks) = str_keys ks"
| "str_keys (KStr s # ks) = s # str_keys ks"

text \<open>
  The group keys come out sorted.  For a column of mixed types pandas puts the numbers
  first, in order, then the texts, in order; on a column of one type this is the plain
  sort.
\<close>

definition sort_mixed :: "key list \<Rightarrow> key list" where
  "sort_mixed ks = map KInt (sort (int_keys ks)) @ map KStr (sort (str_keys ks))"

definition group_keys :: "sales_row list \<Rightarrow> key list" where
  "group_keys df = sort_mixed (remdups (map s_SKU df))"

text \<open>One group of \<open>groupby('SKU').agg(...)\<close> with the columns derived on lines 55-60.\<close>

definition aggregate_group :: "sales_row list \<Rightarrow> key \<Rightarrow> rollup_row" where
  "aggregate_group df k =
     (let rows = filter (\<lambda>r. s_SKU r = k) df;
          total = nansum (map Units_Sold rows);
          revenue = nansum (map Revenue rows);
          mn = date_min (map Date rows);
          mx = date_max (map Date rows);
          period = positive_or_one (span_days mx mn)
      in \<lparr>g_SKU = k, g_Total_Units_Sold = total, g_Total_Revenue = revenue,
          g_Min_Date = mn, g_Max_Date = mx, g_Period_Days = period,
          g_Avg_Daily_Velocity = f_div total (Fin (real_of_int period))\<rparr>)"

definition groupby_agg :: "sales_row list \<Rightarrow> rollup_row list" where
  "groupby_agg df = map (aggregate_group df) (group_keys df)"



section \<open>Left merge and zero fill\<close>

definition joined :: "inventory_row \<Rightarrow> rollup_row \<Rightarrow> merged_row" where
  "joined i g =
     \<lparr>SKU = SKU i, Current_Stock = Current_Stock i, Cost_Price = Cost_Price i,
      Margin = Margin i,
      Total_Units_Sold = g_Total_Units_Sold g, Total_Revenue = g_Total_Revenue g,
      Min_Date = g_Min_Date g, Max_Date = g_Max_Date g,
      Period_Days = Fin (real_of_int (g_Period_Days g)),
      Avg_Daily_Velocity = g_Avg_Daily_Velocity g\<rparr>"

definition unmatched :: "inventory_row \<Rightarrow> merged_row" where
  "unmatched i =
     \<lparr>SKU = SKU i, Current_Stock = Current_Stock i, Cost_Price = Cost_Price i,
      Margin = Margin i,
      Total_Units_Sold = NaN, Total_Revenue = NaN, Min_Date = NaT, Max_Date = NaT,
      Period_Days = NaN, Avg_Daily_Velocity = NaN\<rparr>"

text \<open>
  \<open>pd.merge(inventory_df, sales_grouped, on='SKU', how='left')\<close>: the inventory rows in
  their order, each once per right row of the same key, or once with NaN when there is
  none.
\<close>

definition merge_row :: "rollup_row list \<Rightarrow> inventory_row \<Rightarrow> merged_row list" where
  "merge_row grouped i =
     (case filter (\<lambda>g. g_SKU g = SKU i) grouped of
        [] \<Rightarrow> [unmatched i]
      | ms \<Rightarrow> map (joined i) ms)"

definition merge_left :: "inventory_row list \<Rightarrow> rollup_row list \<Rightarrow> merged_row list" where
  "merge_left inventory grouped = concat (map (merge_row grouped) inventory)"

text \<open>The three \<open>fillna(0)\<close> of lines 70-72.\<close>

definition fill_sales :: "merged_row \<Rightarrow> merged_row" where
  "fill_sales r =
     r\<lparr>Total_Units_Sold := fillna (Fin 0) (Total_Units_Sold r),
       Total_Revenue := fillna (Fin 0) (Total_Revenue r),
       Avg_Daily_Velocity := fillna (Fin 0) (Avg_Daily_Velocity r)\<rparr>"

section \<open>Derived metrics and the risk score\<close>

text \<open>Arithmetic on a text cell raises.\<close>

fun as_float :: "cell \<Rightarrow> error + float64" where
  "as_float (Num x) = Inr x"
| "as_float (Text s) = Inl TypeError"

definition days_of_cover :: "float64 \<Rightarrow> float64 \<Rightarrow> float64" where
  "days_of_cover current_stock velocity =
     (let safe_velocity = replace_val (Fin 0) (Fin (1 / 1000)) velocity
      in f_div current_stock safe_velocity)"

text \<open>
  The row-wise sell-through rate (lines 83-87); the sum and the quotient overflow as the
  format does.
\<close>

definition sell_through_rate :: "float64 \<Rightarrow> float64 \<Rightarrow> float64" where
  "sell_through_rate total_units current_stock =
     (if f_less (Fin 0) (overflow (f_add total_units current_stock))
      then overflow (f_div total_units (overflow (f_add total_units current_stock)))
      else Fin 0)"

definition selling_price :: "float64 \<Rightarrow> float64 \<Rightarrow> float64" where
  "selling_price cost margin = f_div cost (f_sub (Fin 1) margin)"

definition death_risk_base :: "float64 \<Rightarrow> float64" where
  "death_risk_base cover = f_mul (expit (f_div (f_sub cover (Fin 60)) (Fin 30))) (Fin 100)"

definition risk_penalty :: "float64 \<Rightarrow> int" where
  "risk_penalty velocity = (if f_less velocity (Fin (1 / 2)) then 30 else 0)"

definition death_risk_score :: "float64 \<Rightarrow> int \<Rightarrow> float64" where
  "death_risk_score base penalty = clip 0 100 (f_add base (Fin (real_of_int penalty)))"

text \<open>Lines 74-106 on one merged row.\<close>

definition derive :: "merged_row \<Rightarrow> error + enriched_row" where
  "derive r =
     (case as_float (Current_Stock r) of Inl e \<Rightarrow> Inl e | Inr stock \<Rightarrow>
      case as_float (Cost_Price r) of Inl e \<Rightarrow> Inl e | Inr cost \<Rightarrow>
      case as_float (Margin r) of Inl e \<Rightarrow> Inl e | Inr margin \<Rightarrow>
        (let cover = days_of_cover stock (Avg_Daily_Velocity r);
             price = selling_price cost margin;
             base = death_risk_base cover;
             penalty = risk_penalty (Avg_Daily_Velocity r)
         in Inr \<lparr>SKU = SKU r, Current_Stock = Current_Stock r, Cost_Price = Cost_Price r,
                 Margin = Margin r,
                 Total_Units_Sold = Total_Units_Sold r, Total_Revenue = Total_Revenue r,
                 Min_Date = Min_Date r, Max_Date = Max_Date r,
                 Period_Days = Period_Days r, Avg_Daily_Velocity = Avg_Daily_Velocity r,
                 Days_of_Cover = cover,
                 Sell_Through_Rate = sell_through_rate (Total_Units_Sold r) stock,
                 Selling_Price = price,
                 Stock_Value = f_mul stock price,
                 Death_Risk_Base = base,
                 Risk_Penalty = penalty,
                 Death_Risk_Score = death_risk_score base penalty\<rparr>))"

text \<open>All rows, or the first error.\<close>

fun collect :: "('e + 'a) list \<Rightarrow> 'e + 'a list" where
  "collect [] = Inr []"
| "collect (Inl e # xs) = Inl e"
| "collect (Inr x # xs) = (case collect xs of Inl e \<Rightarrow> Inl e | Inr ys \<Rightarrow> Inr (x # ys))"

section \<open>The pipeline\<close>

text \<open>
  \<open>process_inventory\<close> assigns to columns of both of its arguments (lines 41 and 65), so
  the model returns the two tables as the call leaves them, together with the returned
  table or the error raised.

  An inventory table without rows, as it is read from a sheet that holds only the header,
  has columns of object type, and \<open>expit\<close> (line 98) raises a \<open>TypeError\<close> on such a
  column: a call without inventory rows raises.  What a call does on a sales table
  without rows depends on the version of pandas; the model follows the versions that
  go on with an empty rollup.
\<close>

definition parse_dates :: "(string \<Rightarrow> int option) \<Rightarrow> sales_row list \<Rightarrow> sales_row list" where
  "parse_dates parse df = map (\<lambda>r. r\<lparr>Date := to_datetime parse (Date r)\<rparr>) df"

text \<open>The row that the rollup of the parsed sales table holds for an item.\<close>

abbreviation rollup_of :: "(string \<Rightarrow> int option) \<Rightarrow> sales_row list \<Rightarrow> key \<Rightarrow> rollup_row" where
  "rollup_of parse df k \<equiv> aggregate_group (parse_dates parse df) k"

definition stringify_skus :: "inventory_row list \<Rightarrow> inventory_row list" where
  "stringify_skus df = map (\<lambda>r. r\<lparr>SKU := astype_str (SKU r)\<rparr>) df"

definition process_inventory ::
  "(string \<Rightarrow> int option) \<Rightarrow> sales_row list \<Rightarrow> inventory_row list \<Rightarrow>
     sales_row list \<times> inventory_row list \<times> (error + enriched_row list)" where
  "process_inventory parse sales_df inventory_df =
     (let sales_df' = parse_dates parse sales_df;
          sales_grouped = groupby_agg sales_df';
          sales_grouped' = map (\<lambda>g. g\<lparr>g_SKU := astype_str (g_SKU g)\<rparr>) sales_grouped;
          inventory_df' = stringify_skus inventory_df;
          merged_df = map fill_sales (merge_left inventory_df' sales_grouped')
      in (sales_df', inventory_df',
          if merged_df = [] then Inl TypeError else collect (map derive merged_df)))"

text \<open>The value of \<open>merged_df\<close> before the derived columns are added.\<close>

definition merged_table :: "(string \<Rightarrow> int option) \<Rightarrow> sales_row list \<Rightarrow> inventory_row list \<Rightarrow> merged_row list" where
  "merged_table parse sales_df inventory_df =
     map fill_sales (merge_left (stringify_skus inventory_df)
       (map (\<lambda>g. g\<lparr>g_SKU := astype_str (g_SKU g)\<rparr>) (groupby_agg (parse_dates parse sales_df))))"

text \<open>The table a call returned, if it returned one.\<close>

definition returned :: "'s \<times> 'i \<times> (error + 'a) \<Rightarrow> 'a option" where
  "returned res = (case snd (snd res) of Inl e \<Rightarrow> None | Inr out \<Rightarrow> Some out)"

text \<open>A number that is finite and not negative.\<close>

fun nonneg_number :: "float64 \<Rightarrow> bool" where
  "nonneg_number (Fin a) = (0 \<le> a)"
| "nonneg_number _ = False"

fun is_num :: "cell \<Rightarrow> bool" where
  "is_num (Num x) = True"
| "is_num (Text s) = False"

section \<open>Ingestion\<close>

text \<open>
  \<open>load_data\<close> reads through \<open>pd.read_excel(f, sheet_name=sheet, header=h)\<close>, which is
  the parameter \<open>read_excel\<close>: it returns a table or raises, and the message of what it
  raised is kept.  \<open>columns\<close> gives the column labels of a table.
\<close>

definition read_sheet ::
  "('f \<Rightarrow> string \<Rightarrow> nat \<Rightarrow> string + 'df) \<Rightarrow> ('df \<Rightarrow> string list) \<Rightarrow>
     'f \<Rightarrow> string \<Rightarrow> string + 'df" where
  "read_sheet read_excel columns f sheet =
     (let required_cols = {''SKU''} in
      case read_excel f sheet 0 of Inl e \<Rightarrow> Inl e | Inr df \<Rightarrow>
        if required_cols \<subseteq> set (columns df) then Inr df
        else (case read_excel f sheet 1 of Inl e \<Rightarrow> Inl e | Inr df1 \<Rightarrow>
          if required_cols \<subseteq> set (columns df1) then Inr df1
          else read_excel f sheet 0))"

definition load_data ::
  "('f \<Rightarrow> string \<Rightarrow> nat \<Rightarrow> string + 'df) \<Rightarrow> ('df \<Rightarrow> string list) \<Rightarrow>
     'f \<Rightarrow> 'df option \<times> 'df option \<times> string option" where
  "load_data read_excel columns file =
     (case read_sheet read_excel columns file ''Sales'' of
        Inl e \<Rightarrow> (None, None, Some e)
      | Inr sales_df \<Rightarrow>
          (case read_sheet read_excel columns file ''Inventory'' of
             Inl e \<Rightarrow> (None, None, Some e)
           | Inr inventory_df \<Rightarrow> (Some sales_df, Some inventory_df, None)))"

text \<open>
  A small reader to run \<open>load_data\<close> on: a workbook is a list of named sheets, a sheet a
  list of rows of texts, and reading with header \<open>h\<close> takes row \<open>h\<close> as the labels and
  the rows below it as the data.
\<close>

type_synonym workbook = "(string \<times> string list list) list"

definition example_read_excel ::
  "workbook \<Rightarrow> string \<Rightarrow> nat \<Rightarrow> string + (string list \<times> string list list)" where
  "example_read_excel wb sheet h =
     (case map_of wb sheet of
        None \<Rightarrow> Inl ''Worksheet not found''
      | Some rows \<Rightarrow>
          if h < length rows then Inr (rows ! h, drop (Suc h) rows)
          else Inl ''header row out of range'')"

definition example_workbook :: workbook where
  "example_workbook =
     [(''Sales'', [[''SKU'', ''Date'', ''Units_Sold'', ''Revenue''], [''A1'', ''d'', ''10'', ''100'']]),
      (''Inventory'', [[''Stock report''], [''SKU'', ''Current_Stock'', ''Cost_Price'', ''Margin''],
                      [''A1'', ''100'', ''40'', ''0.5'']]),
      (''Notes'', [[''free text''], [''more text''], [''x'']]),
      (''Title'', [[''Report'']])]"

section \<open>Example tables\<close>

definition midnight :: "int \<Rightarrow> date_cell" where
  "midnight d = DateTime (d * ns_per_day)"

text \<open>Scenario A, with the dates taken in 2024 (day 19723 since the epoch is 1 January).\<close>

definition sales_A :: "sales_row list" where
  "sales_A =
     [\<lparr>s_SKU = KStr ''A1'', Date = midnight 19723, Units_Sold = Fin 10, Revenue = Fin 100\<rparr>,
      \<lparr>s_SKU = KStr ''A1'', Date = midnight 19732, Units_Sold = Fin 20, Revenue = Fin 200\<rparr>,
      \<lparr>s_SKU = KStr ''A1'', Date = midnight 19742, Units_Sold = Fin 5, Revenue = Fin 50\<rparr>]"

definition inventory_A :: "inventory_row list" where
  "inventory_A =
     [\<lparr>SKU = KStr ''A1'', Current_Stock = Num (Fin 100), Cost_Price = Num (Fin 40),
       Margin = Num (Fin (1 / 2))\<rparr>]"

definition row_A :: enriched_row where
  "row_A =
     \<lparr>SKU = KStr ''A1'', Current_Stock = Num (Fin 100), Cost_Price = Num (Fin 40),
      Margin = Num (Fin (1 / 2)),
      Total_Units_Sold = Fin 35, Total_Revenue = Fin 350,
      Min_Date = midnight 19723, Max_Date = midnight 19742,
      Period_Days = Fin 20, Avg_Daily_Velocity = Fin (7 / 4),
      Days_of_Cover = Fin (400 / 7), Sell_Through_Rate = Fin (7 / 27),
      Selling_Price = Fin 80, Stock_Value = Fin 8000,
      Death_Risk_Base = Fin (logistic (- (2 / 21)) * 100), Risk_Penalty = 0,
      Death_Risk_Score = Fin (logistic (- (2 / 21)) * 100)\<rparr>"

text \<open>
  Items that never sold: Scenario B (ten units in stock), one item with a fraction of a
  unit in stock, and one with no stock.
\<close>

definition inventory_unsold :: "inventory_row list" where
  "inventory_unsold =
     [\<lparr>SKU = KStr ''B2'', Current_Stock = Num (Fin 10), Cost_Price = Num (Fin 5),
       Margin = Num (Fin (1 / 5))\<rparr>,
      \<lparr>SKU = KStr ''B3'', Current_Stock = Num (Fin (1 / 20)), Cost_Price = Num (Fin 5),
       Margin = Num (Fin (1 / 5))\<rparr>,
      \<lparr>SKU = KStr ''B4'', Current_Stock = Num (Fin 0), Cost_Price = Num (Fin 5),
       Margin = Num (Fin (1 / 5))\<rparr>]"

text \<open>An inventory row whose stock cell is empty.\<close>

definition inventory_null :: "inventory_row list" where
  "inventory_null =
     [\<lparr>SKU = KStr ''N1'', Current_Stock = Num NaN, Cost_Price = Num (Fin 5),
       Margin = Num (Fin (1 / 5))\<rparr>]"

text \<open>An inventory row whose margin cell is empty.\<close>

definition inventory_no_margin :: "inventory_row list" where
  "inventory_no_margin =
     [\<lparr>SKU = KStr ''N2'', Current_Stock = Num (Fin 10), Cost_Price = Num (Fin 5),
       Margin = Num NaN\<rparr>]"

text \<open>An inventory row whose stock cell holds a text.\<close>

definition inventory_text :: "inventory_row list" where
  "inventory_text =
     [\<lparr>SKU = KStr ''T1'', Current_Stock = Text ''n/a'', Cost_Price = Num (Fin 5),
       Margin = Num (Fin (1 / 5))\<rparr>]"

text \<open>
  The same item identifier entered once as a number and once as a text in the sales
  sheet, and as a number in the inventory sheet.
\<close>

definition sales_mixed :: "sales_row list" where
  "sales_mixed =
     [\<lparr>s_SKU = KInt 101, Date = midnight 19723, Units_Sold = Fin 5, Revenue = Fin 50\<rparr>,
      \<lparr>s_SKU = KStr ''101'', Date = midnight 19724, Units_Sold = Fin 3, Revenue = Fin 30\<rparr>]"

definition inventory_mixed :: "inventory_row list" where
  "inventory_mixed =
     [\<lparr>SKU = KInt 101, Current_Stock = Num (Fin 10), Cost_Price = Num (Fin 5),
       Margin = Num (Fin (1 / 5))\<rparr>]"



text \<open>
  A workbook whose \<open>Sales\<close> sheet holds a single row, a title, and whose \<open>Inventory\<close> sheet
  is in order; and one whose \<open>Sales\<close> sheet is in order and whose \<open>Inventory\<close> sheet holds
  a single row.  Both have a sheet of two rows of free text.
\<close>

definition workbook_short :: workbook where
  "workbook_short =
     [(''Sales'', [[''Report'']]),
      (''Inventory'', [[''SKU'', ''Current_Stock'', ''Cost_Price'', ''Margin''],
                      [''A1'', ''100'', ''40'', ''0.5'']]),
      (''Notes'', [[''free text''], [''more text'']])]"

definition workbook_short_inventory :: workbook where
  "workbook_short_inventory =
     [(''Sales'', [[''SKU'', ''Date'', ''Units_Sold'', ''Revenue''], [''A1'', ''d'', ''10'', ''100'']]),
      (''Inventory'', [[''Stock report'']]),
      (''Notes'', [[''free text''], [''more text'']])]"

text \<open>A sale whose date cell holds a text that is not a date.\<close>

definition sales_undated :: "sales_row list" where
  "sales_undated =
     [\<lparr>s_SKU = KStr ''U1'', Date = DateStr ''n/a'', Units_Sold = Fin 4, Revenue = Fin 40\<rparr>]"

definition no_parse :: "string \<Rightarrow> int option" where
  "no_parse s = None"



definition row_null :: enriched_row where
  "row_null =
     \<lparr>SKU = KStr ''N1'', Current_Stock = Num NaN, Cost_Price = Num (Fin 5),
      Margin = Num (Fin (1 / 5)),
      Total_Units_Sold = Fin 0, Total_Revenue = Fin 0, Min_Date = NaT, Max_Date = NaT,
      Period_Days = NaN, Avg_Daily_Velocity = Fin 0,
      Days_of_Cover = NaN, Sell_Through_Rate = Fin 0,
      Selling_Price = Fin (25 / 4), Stock_Value = NaN,
      Death_Risk_Base = NaN, Risk_Penalty = 30, Death_Risk_Score = NaN\<rparr>"

definition row_no_margin :: enriched_row where
  "row_no_margin =
     \<lparr>SKU = KStr ''N2'', Current_Stock = Num (Fin 10), Cost_Price = Num (Fin 5),
      Margin = Num NaN,
      Total_Units_Sold = Fin 0, Total_Revenue = Fin 0, Min_Date = NaT, Max_Date = NaT,
      Period_Days = NaN, Avg_Daily_Velocity = Fin 0,
      Days_of_Cover = Fin 10000, Sell_Through_Rate = Fin 0,
      Selling_Price = NaN, Stock_Value = NaN,
      Death_Risk_Base = Fin (logistic (994 / 3) * 100), Risk_Penalty = 30,
      Death_Risk_Score = Fin (min 100 (max 0 (logistic (994 / 3) * 100 + 30)))\<rparr>"

definition row_B2 :: enriched_row where
  "row_B2 =
     \<lparr>SKU = KStr ''B2'', Current_Stock = Num (Fin 10), Cost_Price = Num (Fin 5),
      Margin = Num (Fin (1 / 5)),
      Total_Units_Sold = Fin 0, Total_Revenue = Fin 0, Min_Date = NaT, Max_Date = NaT,
      Period_Days = NaN, Avg_Daily_Velocity = Fin 0,
      Days_of_Cover = Fin 10000, Sell_Through_Rate = Fin 0,
      Selling_Price = Fin (25 / 4), Stock_Value = Fin (125 / 2),
      Death_Risk_Base = Fin (logistic (994 / 3) * 100), Risk_Penalty = 30,
      Death_Risk_Score = Fin (min 100 (max 0 (logistic (994 / 3) * 100 + 30)))\<rparr>"

definition row_B3 :: enriched_row where
  "row_B3 =
     \<lparr>SKU = KStr ''B3'', Current_Stock = Num (Fin (1 / 20)), Cost_Price = Num (Fin 5),
      Margin = Num (Fin (1 / 5)),
      Total_Units_Sold = Fin 0, Total_Revenue = Fin 0, Min_Date = NaT, Max_Date = NaT,
      Period_Days = NaN, Avg_Daily_Velocity = Fin 0,
      Days_of_Cover = Fin 50, Sell_Through_Rate = Fin 0,
      Selling_Price = Fin (25 / 4), Stock_Value = Fin (5 / 16),
      Death_Risk_Base = Fin (logistic (- (1 / 3)) * 100), Risk_Penalty = 30,
      Death_Risk_Score = Fin (min 100 (max 0 (logistic (- (1 / 3)) * 100 + 30)))\<rparr>"

definition row_B4 :: enriched_row where
  "row_B4 =
     \<lparr>SKU = KStr ''B4'', Current_Stock = Num (Fin 0), Cost_Price = Num (Fin 5),
      Margin = Num (Fin (1 / 5)),
      Total_Units_Sold = Fin 0, Total_Revenue = Fin 0, Min_Date = NaT, Max_Date = NaT,
      Period_Days = NaN, Avg_Daily_Velocity = Fin 0,
      Days_of_Cover = Fin 0, Sell_Through_Rate = Fin 0,
      Selling_Price = Fin (25 / 4), Stock_Value = Fin 0,
      Death_Risk_Base = Fin (logistic (- 2) * 100), Risk_Penalty = 30,
      Death_Risk_Score = Fin (min 100 (max 0 (logistic (- 2) * 100 + 30)))\<rparr>"


text \<open>Whether a cell lies in a closed interval; false for NaN.\<close>

definition in_range :: "real \<Rightarrow> real \<Rightarrow> float64 \<Rightarrow> bool" where
  "in_range lo hi x = (f_le (Fin lo) x \<and> f_le x (Fin hi))"

section \<open>Basic facts\<close>

lemma logistic_pos: "0 < logistic x"
  by (simp add: logistic_def add_pos_pos)

lemma logistic_lt_one: "logistic x < 1"
  by (simp add: logistic_def add_pos_pos)

lemma collect_map_Inr: "collect (map Inr ys) = Inr ys"
  by (induction ys) simp_all

lemma collect_Inr_D: "collect xs = Inr ys \<Longrightarrow> xs = map Inr ys"
proof (induction xs arbitrary: ys)
  case Nil
  then show ?case by simp
next
  case (Cons x xs)
  show ?case
  proof (cases x)
    case (Inl a)
    with Cons.prems show ?thesis by simp
  next
    case (Inr b)
    show ?thesis
    proof (cases "collect xs")
      case (Inl e)
      with Inr Cons.prems show ?thesis by simp
    next
      case inner: (Inr zs)
      with Inr Cons.prems have "ys = b # zs" by simp
      moreover from inner have "xs = map Inr zs" by (rule Cons.IH)
      ultimately show ?thesis using Inr by simp
    qed
  qed
qed

lemma collect_Inl_D: "collect xs = Inl e \<Longrightarrow> Inl e \<in> set xs"
proof (induction xs)
  case Nil
  then show ?case by simp
next
  case (Cons x xs)
  show ?case
  proof (cases x)
    case (Inl a)
    with Cons.prems show ?thesis by simp
  next
    case (Inr b)
    with Cons show ?thesis by (cases "collect xs") simp_all
  qed
qed

lemma collect_Inl_I: "Inl e \<in> set xs \<Longrightarrow> \<exists>e'. collect xs = Inl e'"
proof (induction xs)
  case Nil
  then show ?case by simp
next
  case (Cons x xs)
  show ?case
  proof (cases x)
    case (Inl a)
    then show ?thesis by simp
  next
    case (Inr b)
    with Cons obtain e' where "collect xs = Inl e'" by auto
    with Inr show ?thesis by simp
  qed
qed

lemma fillna_not_NaN: "fillna (Fin v) x \<noteq> NaN"
  by (simp add: fillna_def)

lemmas run_defs = process_inventory_def parse_dates_def stringify_skus_def groupby_agg_def group_keys_def sort_mixed_def aggregate_group_def nansum_def date_min_def date_max_def midnight_def ns_per_day_def merge_left_def merge_row_def joined_def unmatched_def fill_sales_def fillna_def derive_def days_of_cover_def replace_val_def sell_through_rate_def selling_price_def f_sub_def death_risk_base_def risk_penalty_def death_risk_score_def no_parse_def float_max_def Let_def

lemma clip_percent: "min 100 (max 0 (logistic x * 100)) = logistic x * 100"
  using logistic_pos [of x] logistic_lt_one [of x] by (simp add: min_def max_def)

lemma run_A: "process_inventory no_parse sales_A inventory_A = (sales_A, inventory_A, Inr [row_A])"
  by (simp add: run_defs sales_A_def inventory_A_def row_A_def clip_percent)

section \<open>Structure of a run\<close>

lemma process_inventory_eq:
  "process_inventory parse sales_df inventory_df =
     (parse_dates parse sales_df, stringify_skus inventory_df,
      if merged_table parse sales_df inventory_df = [] then Inl TypeError
      else collect (map derive (merged_table parse sales_df inventory_df)))"
  by (simp add: process_inventory_def merged_table_def Let_def)

lemma process_inventory_Inr_D:
  assumes "process_inventory parse sales_df inventory_df = (s', i', Inr out)"
  shows "collect (map derive (merged_table parse sales_df inventory_df)) = Inr out"
    and "merged_table parse sales_df inventory_df \<noteq> []"
  using assms by (simp_all add: process_inventory_eq split: if_splits)

lemma derive_formulas:
  assumes "derive m = Inr r"
  shows "\<exists>stock cost margin.
           Current_Stock r = Num stock \<and> Cost_Price r = Num cost \<and> Margin r = Num margin \<and>
           Days_of_Cover r = days_of_cover stock (Avg_Daily_Velocity r) \<and>
           Sell_Through_Rate r = sell_through_rate (Total_Units_Sold r) stock \<and>
           Selling_Price r = selling_price cost margin \<and>
           Stock_Value r = f_mul stock (Selling_Price r) \<and>
           Death_Risk_Base r = death_risk_base (Days_of_Cover r) \<and>
           Risk_Penalty r = risk_penalty (Avg_Daily_Velocity r) \<and>
           Death_Risk_Score r = death_risk_score (Death_Risk_Base r) (Risk_Penalty r)"
  using assms
  by (cases "Current_Stock m"; cases "Cost_Price m"; cases "Margin m")
     (auto simp: derive_def Let_def)

lemma derive_copies:
  assumes "derive m = Inr r"
  shows "SKU r = SKU m \<and> Current_Stock r = Current_Stock m \<and> Cost_Price r = Cost_Price m \<and>
         Margin r = Margin m \<and> Total_Units_Sold r = Total_Units_Sold m \<and>
         Total_Revenue r = Total_Revenue m \<and> Min_Date r = Min_Date m \<and>
         Max_Date r = Max_Date m \<and> Period_Days r = Period_Days m \<and>
         Avg_Daily_Velocity r = Avg_Daily_Velocity m"
  using assms
  by (cases "Current_Stock m"; cases "Cost_Price m"; cases "Margin m")
     (auto simp: derive_def Let_def)

lemma derive_Inl_iff:
  "(\<exists>e. derive m = Inl e) \<longleftrightarrow> \<not> (is_num (Current_Stock m) \<and> is_num (Cost_Price m) \<and> is_num (Margin m))"
  by (cases "Current_Stock m"; cases "Cost_Price m"; cases "Margin m")
     (auto simp: derive_def Let_def)

lemma out_row_from_merged:
  assumes "process_inventory parse sales_df inventory_df = (s', i', Inr out)" and "r \<in> set out"
  shows "\<exists>m \<in> set (merged_table parse sales_df inventory_df). derive m = Inr r"
proof -
  from assms(1) have "collect (map derive (merged_table parse sales_df inventory_df)) = Inr out"
    by (rule process_inventory_Inr_D(1))
  then have "map derive (merged_table parse sales_df inventory_df) = map Inr out"
    by (rule collect_Inr_D)
  then have "Inr r \<in> set (map derive (merged_table parse sales_df inventory_df))"
    using assms(2) by simp
  then show ?thesis by auto
qed

lemma merged_velocity_not_NaN:
  "m \<in> set (merged_table parse sales_df inventory_df) \<Longrightarrow> Avg_Daily_Velocity m \<noteq> NaN"
  by (auto simp: merged_table_def fill_sales_def fillna_def split: if_splits)

lemma set_int_keys: "i \<in> set (int_keys ks) \<longleftrightarrow> KInt i \<in> set ks"
  by (induction ks rule: int_keys.induct) auto

lemma set_str_keys: "s \<in> set (str_keys ks) \<longleftrightarrow> KStr s \<in> set ks"
  by (induction ks rule: str_keys.induct) auto

lemma set_sort_mixed: "set (sort_mixed ks) = set ks"
proof (rule set_eqI)
  fix k
  show "k \<in> set (sort_mixed ks) \<longleftrightarrow> k \<in> set ks"
    by (cases k) (auto simp: sort_mixed_def set_int_keys set_str_keys)
qed

lemma set_group_keys: "set (group_keys df) = s_SKU ` set df"
  by (simp add: group_keys_def set_sort_mixed)

lemma keys_parse_dates: "s_SKU ` set (parse_dates parse df) = s_SKU ` set df"
  by (auto simp: parse_dates_def image_iff)

lemma in_groupby_agg:
  "g \<in> set (groupby_agg df) \<longleftrightarrow> (\<exists>k \<in> s_SKU ` set df. g = aggregate_group df k)"
  by (auto simp: groupby_agg_def set_group_keys)

lemma g_SKU_aggregate_group: "g_SKU (aggregate_group df k) = k"
  by (simp add: aggregate_group_def Let_def)

lemma merge_row_cases:
  assumes "m \<in> set (merge_row grouped i)"
  shows "(m = unmatched i \<and> (\<forall>g \<in> set grouped. g_SKU g \<noteq> SKU i)) \<or>
         (\<exists>g \<in> set grouped. g_SKU g = SKU i \<and> m = joined i g)"
proof (cases "filter (\<lambda>g. g_SKU g = SKU i) grouped")
  case Nil
  then have "\<forall>g \<in> set grouped. g_SKU g \<noteq> SKU i"
    by (simp add: filter_empty_conv)
  with Nil assms show ?thesis by (simp add: merge_row_def)
next
  case (Cons a as)
  with assms have "m \<in> joined i ` set (filter (\<lambda>g. g_SKU g = SKU i) grouped)"
    by (simp add: merge_row_def)
  then show ?thesis by auto
qed

lemma merged_table_cases:
  assumes "m \<in> set (merged_table parse sales_df inventory_df)"
  shows "\<exists>i \<in> set inventory_df.
           (m = fill_sales (unmatched (i\<lparr>SKU := astype_str (SKU i)\<rparr>)) \<and>
            astype_str (SKU i) \<notin> astype_str ` s_SKU ` set sales_df) \<or>
           (\<exists>k \<in> s_SKU ` set sales_df. astype_str k = astype_str (SKU i) \<and>
              m = fill_sales (joined (i\<lparr>SKU := astype_str (SKU i)\<rparr>)
                    ((aggregate_group (parse_dates parse sales_df) k)\<lparr>g_SKU := astype_str k\<rparr>)))"
proof -
  let ?grouped = "map (\<lambda>g. g\<lparr>g_SKU := astype_str (g_SKU g)\<rparr>) (groupby_agg (parse_dates parse sales_df))"
  from assms obtain x i where i: "i \<in> set inventory_df"
    and x: "x \<in> set (merge_row ?grouped (i\<lparr>SKU := astype_str (SKU i)\<rparr>))"
    and m: "m = fill_sales x"
    by (auto simp: merged_table_def merge_left_def stringify_skus_def)
  let ?i = "i\<lparr>SKU := astype_str (SKU i)\<rparr>"
  from merge_row_cases [OF x]
  show ?thesis
  proof
    assume a: "x = unmatched ?i \<and> (\<forall>g \<in> set ?grouped. g_SKU g \<noteq> SKU ?i)"
    have "astype_str (SKU i) \<notin> astype_str ` s_SKU ` set sales_df"
    proof
      assume "astype_str (SKU i) \<in> astype_str ` s_SKU ` set sales_df"
      then obtain k where k: "k \<in> s_SKU ` set sales_df" and e: "astype_str (SKU i) = astype_str k"
        by auto
      from k have "aggregate_group (parse_dates parse sales_df) k \<in> set (groupby_agg (parse_dates parse sales_df))"
        by (auto simp: in_groupby_agg keys_parse_dates)
      then have g: "(aggregate_group (parse_dates parse sales_df) k)\<lparr>g_SKU := astype_str k\<rparr> \<in> set ?grouped"
        by (force simp: g_SKU_aggregate_group)
      from a have "\<forall>g \<in> set ?grouped. g_SKU g \<noteq> astype_str (SKU i)" by simp
      from this g
      have "g_SKU ((aggregate_group (parse_dates parse sales_df) k)\<lparr>g_SKU := astype_str k\<rparr>) \<noteq> astype_str (SKU i)"
        by (rule bspec)
      with e show False by simp
    qed
    with a m i show ?thesis by blast
  next
    assume "\<exists>g \<in> set ?grouped. g_SKU g = SKU ?i \<and> x = joined ?i g"
    then obtain g where g: "g \<in> set ?grouped" and e: "g_SKU g = SKU ?i" and xj: "x = joined ?i g"
      by blast
    from g obtain g0 where g0: "g0 \<in> set (groupby_agg (parse_dates parse sales_df))"
      and gg0: "g = g0\<lparr>g_SKU := astype_str (g_SKU g0)\<rparr>"
      by auto
    from g0 obtain k where k0: "k \<in> s_SKU ` set (parse_dates parse sales_df)"
      and g0k: "g0 = aggregate_group (parse_dates parse sales_df) k"
      unfolding in_groupby_agg by blast
    from k0 have k: "k \<in> s_SKU ` set sales_df"
      by (simp only: keys_parse_dates)
    from gg0 g0k
    have gk: "g = (aggregate_group (parse_dates parse sales_df) k)\<lparr>g_SKU := astype_str k\<rparr>"
      by (simp add: g_SKU_aggregate_group)
    from e gk have "astype_str k = astype_str (SKU i)" by simp
    with k gk xj m i show ?thesis by blast
  qed
qed

section \<open>The risk score\<close>

lemma out_velocity_not_NaN:
  assumes "process_inventory parse sales_df inventory_df = (s', i', Inr out)" and "r \<in> set out"
  shows "Avg_Daily_Velocity r \<noteq> NaN"
proof -
  from out_row_from_merged [OF assms] obtain m
    where m: "m \<in> set (merged_table parse sales_df inventory_df)" and d: "derive m = Inr r"
    by blast
  from derive_copies [OF d] have "Avg_Daily_Velocity r = Avg_Daily_Velocity m" by simp
  with merged_velocity_not_NaN [OF m] show ?thesis by simp
qed

lemma out_row_formulas:
  assumes "process_inventory parse sales_df inventory_df = (s', i', Inr out)" and "r \<in> set out"
  shows "\<exists>stock cost margin.
           Current_Stock r = Num stock \<and> Cost_Price r = Num cost \<and> Margin r = Num margin \<and>
           Days_of_Cover r = days_of_cover stock (Avg_Daily_Velocity r) \<and>
           Sell_Through_Rate r = sell_through_rate (Total_Units_Sold r) stock \<and>
           Selling_Price r = selling_price cost margin \<and>
           Stock_Value r = f_mul stock (Selling_Price r) \<and>
           Death_Risk_Base r = death_risk_base (Days_of_Cover r) \<and>
           Risk_Penalty r = risk_penalty (Avg_Daily_Velocity r) \<and>
           Death_Risk_Score r = death_risk_score (Death_Risk_Base r) (Risk_Penalty r)"
proof -
  from out_row_from_merged [OF assms] obtain m where "derive m = Inr r" by blast
  then show ?thesis by (rule derive_formulas)
qed

lemma cover_finite:
  assumes "v \<noteq> NaN"
  shows "\<exists>d. days_of_cover (Fin c) v = Fin d"
  using assms by (cases v) (auto simp: days_of_cover_def replace_val_def Let_def)

lemma cover_NaN: "days_of_cover NaN v = NaN"
  by (simp add: days_of_cover_def Let_def)

lemma base_of_finite: "death_risk_base (Fin d) = Fin (1 / (1 + exp (- ((d - 60) / 30))) * 100)"
  by (simp add: death_risk_base_def f_sub_def logistic_def)

lemma base_NaN: "death_risk_base NaN = NaN"
  by (simp add: death_risk_base_def f_sub_def)

lemma score_range:
  "\<exists>x. death_risk_score (death_risk_base (Fin d)) p = Fin x \<and> 0 \<le> x \<and> x \<le> 100"
  by (simp add: death_risk_score_def death_risk_base_def f_sub_def)

lemma score_NaN: "death_risk_score NaN p = NaN"
  by (simp add: death_risk_score_def)

text \<open>
  Claim C1.  Every row of the returned table has
  \<open>Death_Risk_Base = logistic((Days_of_Cover - 60) / 30) * 100\<close>, a penalty of 30 when
  the velocity is below 0.5 and of 0 otherwise, and as score the sum of both clipped to
  0..100.  The score lies in the closed interval from 0 to 100 whenever the stock of
  the row is a finite number; when the stock cell is empty (NaN) the score is NaN.
\<close>

theorem risk_score_formula_and_range:
  assumes "process_inventory parse sales_df inventory_df = (sales_df', inventory_df', Inr out)"
    and "r \<in> set out"
  shows "(\<forall>d. Days_of_Cover r = Fin d \<longrightarrow>
            Death_Risk_Base r = Fin (1 / (1 + exp (- ((d - 60) / 30))) * 100)) \<and>
         Risk_Penalty r = (if f_less (Avg_Daily_Velocity r) (Fin (1 / 2)) then 30 else 0) \<and>
         Death_Risk_Score r =
           clip 0 100 (f_add (Death_Risk_Base r) (Fin (real_of_int (Risk_Penalty r)))) \<and>
         (\<forall>c. Current_Stock r = Num (Fin c) \<longrightarrow>
            (\<exists>x. Death_Risk_Score r = Fin x \<and> 0 \<le> x \<and> x \<le> 100)) \<and>
         (Current_Stock r = Num NaN \<longrightarrow> Death_Risk_Score r = NaN)"
proof -
  from out_row_formulas [OF assms] obtain stock cost margin where
    stock: "Current_Stock r = Num stock"
    and cover: "Days_of_Cover r = days_of_cover stock (Avg_Daily_Velocity r)"
    and base: "Death_Risk_Base r = death_risk_base (Days_of_Cover r)"
    and pen: "Risk_Penalty r = risk_penalty (Avg_Daily_Velocity r)"
    and score: "Death_Risk_Score r = death_risk_score (Death_Risk_Base r) (Risk_Penalty r)"
    by blast
  have v: "Avg_Daily_Velocity r \<noteq> NaN" using assms by (rule out_velocity_not_NaN)
  have 1: "\<forall>d. Days_of_Cover r = Fin d \<longrightarrow>
            Death_Risk_Base r = Fin (1 / (1 + exp (- ((d - 60) / 30))) * 100)"
    using base by (simp add: base_of_finite)
  have 2: "Risk_Penalty r = (if f_less (Avg_Daily_Velocity r) (Fin (1 / 2)) then 30 else 0)"
    using pen by (simp add: risk_penalty_def)
  have 3: "Death_Risk_Score r =
           clip 0 100 (f_add (Death_Risk_Base r) (Fin (real_of_int (Risk_Penalty r))))"
    using score by (simp add: death_risk_score_def)
  have 4: "\<forall>c. Current_Stock r = Num (Fin c) \<longrightarrow>
            (\<exists>x. Death_Risk_Score r = Fin x \<and> 0 \<le> x \<and> x \<le> 100)"
  proof (intro allI impI)
    fix c assume "Current_Stock r = Num (Fin c)"
    with stock have "stock = Fin c" by simp
    with cover cover_finite [OF v, of c] obtain d where "Days_of_Cover r = Fin d" by auto
    with base score show "\<exists>x. Death_Risk_Score r = Fin x \<and> 0 \<le> x \<and> x \<le> 100"
      using score_range [of d "Risk_Penalty r"] by simp
  qed
  have 5: "Current_Stock r = Num NaN \<longrightarrow> Death_Risk_Score r = NaN"
  proof
    assume "Current_Stock r = Num NaN"
    with stock have "stock = NaN" by simp
    with cover base score show "Death_Risk_Score r = NaN"
      by (simp add: cover_NaN base_NaN score_NaN)
  qed
  from 1 2 3 4 5 show ?thesis by blast
qed

subsection \<open>Runs on the example tables\<close>

lemma run_null:
  "process_inventory no_parse [] inventory_null = ([], inventory_null, Inr [row_null])"
  by (simp add: run_defs inventory_null_def row_null_def signed_inf_def)

lemma run_unsold:
  "process_inventory no_parse sales_A inventory_unsold =
     (sales_A, inventory_unsold, Inr [row_B2, row_B3, row_B4])"
  by (simp add: run_defs sales_A_def inventory_unsold_def row_B2_def row_B3_def row_B4_def)

lemma str_int_101: "str_int 101 = ''101''"
  by (simp add: str_int_def digit_chars.simps [of 101] digit_chars.simps [of 10]
      digit_chars.simps [of "Suc 0"])

text \<open>The statement of C1 on Scenario A and on the row with an empty stock cell.\<close>

theorem risk_score_formula_and_range_witness:
  "process_inventory no_parse sales_A inventory_A = (sales_A, inventory_A, Inr [row_A]) \<and>
   row_A \<in> set [row_A] \<and>
   Days_of_Cover row_A = Fin (400 / 7) \<and>
   Death_Risk_Base row_A = Fin (1 / (1 + exp (- ((400 / 7 - 60) / 30))) * 100) \<and>
   Current_Stock row_A = Num (Fin 100) \<and>
   (\<exists>x. Death_Risk_Score row_A = Fin x \<and> 0 \<le> x \<and> x \<le> 100) \<and>
   process_inventory no_parse [] inventory_null = ([], inventory_null, Inr [row_null]) \<and>
   row_null \<in> set [row_null] \<and>
   Current_Stock row_null = Num NaN \<and> Death_Risk_Score row_null = NaN"
proof -
  have a: "row_A \<in> set [row_A]" and n: "row_null \<in> set [row_null]"
    by simp_all
  note ta = risk_score_formula_and_range [OF run_A a]
  note tn = risk_score_formula_and_range [OF run_null n]
  have cover: "Days_of_Cover row_A = Fin (400 / 7)"
    and stock: "Current_Stock row_A = Num (Fin 100)"
    by (simp_all add: row_A_def)
  have null: "Current_Stock row_null = Num NaN"
    by (simp add: row_null_def)
  from ta cover
  have "Death_Risk_Base row_A = Fin (1 / (1 + exp (- ((400 / 7 - 60) / 30))) * 100)"
    by blast
  moreover from ta stock
  have "\<exists>x. Death_Risk_Score row_A = Fin x \<and> 0 \<le> x \<and> x \<le> 100"
    by blast
  moreover from tn null have "Death_Risk_Score row_null = NaN"
    by blast
  ultimately show ?thesis
    using run_A run_null a n cover stock null by blast
qed

text \<open>
  With an empty stock cell the score of the returned row is NaN, which is not in the
  interval from 0 to 100.
\<close>

theorem risk_score_range_counterexample:
  "map_option (map (in_range 0 100 \<circ> Death_Risk_Score))
     (returned (process_inventory no_parse [] inventory_null)) = Some [False]"
  by (simp add: run_null returned_def row_null_def in_range_def f_le_def)

section \<open>Bounds on the exponential\<close>

lemma exp_taylor_bounds:
  fixes x :: real
  assumes "0 \<le> x" and "x \<le> 2"
  shows "(\<Sum>m<10. x ^ m / fact m) \<le> exp x"
    and "exp x \<le> (\<Sum>m<10. x ^ m / fact m) + 9 * x ^ 10 / fact 10"
proof -
  obtain t where t: "\<bar>t\<bar> \<le> \<bar>x\<bar>"
    and e: "exp x = (\<Sum>m<10. x ^ m / fact m) + (exp t / fact 10) * x ^ 10"
    using Maclaurin_exp_le [of x 10] by blast
  have p: "0 \<le> x ^ 10" using assms(1) by simp
  have "0 \<le> (exp t / fact 10) * x ^ 10"
    using p by simp
  with e show "(\<Sum>m<10. x ^ m / fact m) \<le> exp x" by linarith
  from t assms have "t \<le> 2" by linarith
  then have "exp t \<le> exp 2" by simp
  also have "exp (2::real) = exp 1 ^ 2"
    using exp_of_nat_mult [of 2 "1::real"] by simp
  also have "\<dots> \<le> 3 ^ 2"
    by (rule power_mono) (simp_all add: exp_le)
  finally have "exp t \<le> 9" by simp
  then have "exp t / fact 10 \<le> 9 / fact 10"
    by (simp add: divide_right_mono)
  then have "(exp t / fact 10) * x ^ 10 \<le> (9 / fact 10) * x ^ 10"
    using p by (rule mult_right_mono)
  with e show "exp x \<le> (\<Sum>m<10. x ^ m / fact m) + 9 * x ^ 10 / fact 10"
    by simp
qed

lemma taylor_sum_10:
  fixes x :: real
  shows "(\<Sum>m<10. x ^ m / fact m) =
     1 + x + x^2 / 2 + x^3 / 6 + x^4 / 24 + x^5 / 120 + x^6 / 720 + x^7 / 5040
       + x^8 / 40320 + x^9 / 362880"
  by (simp add: lessThan_nat_numeral lessThan_Suc fact_numeral numeral_eq_Suc)

lemma exp_poly_bounds:
  fixes x :: real
  assumes "0 \<le> x" and "x \<le> 2"
  shows "1 + x + x^2 / 2 + x^3 / 6 + x^4 / 24 + x^5 / 120 + x^6 / 720 + x^7 / 5040
       + x^8 / 40320 + x^9 / 362880 \<le> exp x"
    and "exp x \<le> 1 + x + x^2 / 2 + x^3 / 6 + x^4 / 24 + x^5 / 120 + x^6 / 720 + x^7 / 5040
       + x^8 / 40320 + x^9 / 362880 + x ^ 10 / 403200"
  using exp_taylor_bounds [OF assms] by (simp_all add: taylor_sum_10 fact_numeral)

lemma exp_2_bounds: "(7388 / 1000 :: real) < exp 2" "exp 2 < (7392 / 1000 :: real)"
  using exp_poly_bounds [of 2] by simp_all

lemma exp_2_21_bounds: "(10999 / 10000 :: real) < exp (2 / 21)" "exp (2 / 21) < (11 / 10 :: real)"
  using exp_poly_bounds [of "2 / 21"] by (simp_all add: power_divide)

section \<open>Inventory rows in the returned table\<close>

lemma logistic_ge_iff: "7 / 10 \<le> logistic x \<longleftrightarrow> ln (7 / 3) \<le> x"
proof -
  have pos: "0 < 1 + exp (- x)" by (simp add: add_pos_pos)
  have "7 / 10 \<le> logistic x \<longleftrightarrow> 7 * (1 + exp (- x)) \<le> 10"
    using pos by (simp add: logistic_def field_simps)
  also have "\<dots> \<longleftrightarrow> exp (- x) \<le> 3 / 7" by auto
  also have "\<dots> \<longleftrightarrow> exp (- x) \<le> exp (ln (3 / 7))" by simp
  also have "\<dots> \<longleftrightarrow> - x \<le> ln (3 / 7)" by (rule exp_le_cancel_iff)
  also have "ln (3 / 7 :: real) = - ln (7 / 3)"
    using ln_inverse [of "7 / 3 :: real"] by simp
  finally show ?thesis by auto
qed

lemma score_with_penalty:
  "death_risk_score (death_risk_base (Fin d)) 30 = Fin 100 \<longleftrightarrow> 60 + 30 * ln (7 / 3) \<le> d"
proof -
  have "death_risk_score (death_risk_base (Fin d)) 30 = Fin 100 \<longleftrightarrow>
          7 / 10 \<le> logistic ((d - 60) / 30)"
    using logistic_pos [of "(d - 60) / 30"]
    by (simp add: death_risk_score_def death_risk_base_def f_sub_def min_def max_def)
  also have "\<dots> \<longleftrightarrow> ln (7 / 3) \<le> (d - 60) / 30"
    by (rule logistic_ge_iff)
  also have "\<dots> \<longleftrightarrow> ln (7 / 3) * 30 \<le> d - 60"
    by (rule pos_le_divide_eq) simp
  also have "\<dots> \<longleftrightarrow> 60 + 30 * ln (7 / 3) \<le> d"
    by auto
  finally show ?thesis .
qed

lemma ln_7_3_le: "ln (7 / 3 :: real) \<le> 4 / 3"
  using ln_le_minus_one [of "7 / 3 :: real"] by simp

lemma merged_row_in_out:
  assumes "process_inventory parse sales_df inventory_df = (s', i', Inr out)"
    and "m \<in> set (merged_table parse sales_df inventory_df)"
  shows "\<exists>r \<in> set out. derive m = Inr r"
proof -
  from assms(1) have "collect (map derive (merged_table parse sales_df inventory_df)) = Inr out"
    by (rule process_inventory_Inr_D(1))
  then have "map derive (merged_table parse sales_df inventory_df) = map Inr out"
    by (rule collect_Inr_D)
  moreover from assms(2)
  have "derive m \<in> set (map derive (merged_table parse sales_df inventory_df))" by simp
  ultimately have "derive m \<in> set (map Inr out)" by simp
  then show ?thesis by auto
qed

lemma merge_row_nonempty: "merge_row grouped i \<noteq> []"
  by (cases "filter (\<lambda>g. g_SKU g = SKU i) grouped") (simp_all add: merge_row_def)

lemma merge_row_inventory_fields:
  assumes "m \<in> set (merge_row grouped i)"
  shows "SKU m = SKU i \<and> Current_Stock m = Current_Stock i \<and> Cost_Price m = Cost_Price i \<and>
         Margin m = Margin i"
  using merge_row_cases [OF assms] by (auto simp: unmatched_def joined_def)

lemma inventory_row_in_merged:
  assumes "i \<in> set inventory_df"
  shows "\<exists>m \<in> set (merged_table parse sales_df inventory_df).
           SKU m = astype_str (SKU i) \<and> Current_Stock m = Current_Stock i \<and>
           Cost_Price m = Cost_Price i \<and> Margin m = Margin i"
proof -
  let ?grouped = "map (\<lambda>g. g\<lparr>g_SKU := astype_str (g_SKU g)\<rparr>) (groupby_agg (parse_dates parse sales_df))"
  let ?i = "i\<lparr>SKU := astype_str (SKU i)\<rparr>"
  obtain x where x: "x \<in> set (merge_row ?grouped ?i)"
    using merge_row_nonempty [of ?grouped ?i] by (cases "merge_row ?grouped ?i") auto
  from assms x have "fill_sales x \<in> set (merged_table parse sales_df inventory_df)"
    by (force simp: merged_table_def merge_left_def stringify_skus_def)
  moreover from merge_row_inventory_fields [OF x]
  have "SKU (fill_sales x) = astype_str (SKU i) \<and> Current_Stock (fill_sales x) = Current_Stock i \<and>
        Cost_Price (fill_sales x) = Cost_Price i \<and> Margin (fill_sales x) = Margin i"
    by (simp add: fill_sales_def)
  ultimately show ?thesis by blast
qed

lemma inventory_row_in_out:
  assumes "process_inventory parse sales_df inventory_df = (s', i', Inr out)"
    and "i \<in> set inventory_df"
  shows "\<exists>r \<in> set out. SKU r = astype_str (SKU i) \<and> Current_Stock r = Current_Stock i \<and>
           Cost_Price r = Cost_Price i \<and> Margin r = Margin i"
proof -
  from inventory_row_in_merged [OF assms(2)] obtain m
    where m: "m \<in> set (merged_table parse sales_df inventory_df)"
      and f: "SKU m = astype_str (SKU i) \<and> Current_Stock m = Current_Stock i \<and>
           Cost_Price m = Cost_Price i \<and> Margin m = Margin i"
    by blast
  from merged_row_in_out [OF assms(1) m] obtain r where r: "r \<in> set out" and d: "derive m = Inr r"
    by blast
  from derive_copies [OF d] f r show ?thesis by auto
qed

lemma out_row_unmatched:
  assumes "process_inventory parse sales_df inventory_df = (s', i', Inr out)"
    and "r \<in> set out"
    and "SKU r \<notin> astype_str ` s_SKU ` set sales_df"
  shows "Total_Units_Sold r = Fin 0 \<and> Total_Revenue r = Fin 0 \<and>
         Avg_Daily_Velocity r = Fin 0 \<and> Period_Days r = NaN"
proof -
  from out_row_from_merged [OF assms(1,2)] obtain m
    where m: "m \<in> set (merged_table parse sales_df inventory_df)" and d: "derive m = Inr r"
    by blast
  note c = derive_copies [OF d]
  from merged_table_cases [OF m] obtain i where
    "(m = fill_sales (unmatched (i\<lparr>SKU := astype_str (SKU i)\<rparr>)) \<and>
            astype_str (SKU i) \<notin> astype_str ` s_SKU ` set sales_df) \<or>
           (\<exists>k \<in> s_SKU ` set sales_df. astype_str k = astype_str (SKU i) \<and>
              m = fill_sales (joined (i\<lparr>SKU := astype_str (SKU i)\<rparr>)
                    ((aggregate_group (parse_dates parse sales_df) k)\<lparr>g_SKU := astype_str k\<rparr>)))"
    by blast
  then show ?thesis
  proof
    assume "m = fill_sales (unmatched (i\<lparr>SKU := astype_str (SKU i)\<rparr>)) \<and>
            astype_str (SKU i) \<notin> astype_str ` s_SKU ` set sales_df"
    then have "Total_Units_Sold m = Fin 0 \<and> Total_Revenue m = Fin 0 \<and>
         Avg_Daily_Velocity m = Fin 0 \<and> Period_Days m = NaN"
      by (simp add: fill_sales_def unmatched_def fillna_def)
    with c show ?thesis by simp
  next
    assume "\<exists>k \<in> s_SKU ` set sales_df. astype_str k = astype_str (SKU i) \<and>
              m = fill_sales (joined (i\<lparr>SKU := astype_str (SKU i)\<rparr>)
                    ((aggregate_group (parse_dates parse sales_df) k)\<lparr>g_SKU := astype_str k\<rparr>))"
    then obtain k where k: "k \<in> s_SKU ` set sales_df" and e: "astype_str k = astype_str (SKU i)"
      and mj: "m = fill_sales (joined (i\<lparr>SKU := astype_str (SKU i)\<rparr>)
                    ((aggregate_group (parse_dates parse sales_df) k)\<lparr>g_SKU := astype_str k\<rparr>))"
      by blast
    from mj have "SKU m = astype_str (SKU i)" by (simp add: fill_sales_def joined_def)
    with c e have "SKU r = astype_str k" by simp
    with k assms(3) show ?thesis by blast
  qed
qed

section \<open>Items without sales\<close>

lemma cover_unsold: "days_of_cover (Fin c) (Fin 0) = Fin (c / (1 / 1000))"
  by (simp add: days_of_cover_def replace_val_def Let_def)

lemma penalty_unsold: "risk_penalty (Fin 0) = 30"
  by (simp add: risk_penalty_def)

lemma score_B3_less: "min 100 (max 0 (logistic (- (1 / 3)) * 100 + 30)) < (100 :: real)"
proof -
  have "0 < ln (7 / 3 :: real)" by simp
  then have "\<not> ln (7 / 3 :: real) \<le> - (1 / 3)" by linarith
  with logistic_ge_iff [of "- (1 / 3)"] have "logistic (- (1 / 3)) < 7 / 10"
    by linarith
  then have "logistic (- (1 / 3)) * 100 + 30 < 100" by linarith
  then show ?thesis by (simp add: min_def max_def)
qed

text \<open>
  Claim C3.  An inventory item whose identifier, as a string, is the identifier of no
  sales row is in the returned table, and every returned row of that identifier has
  \<open>Total_Units_Sold = 0\<close>, \<open>Total_Revenue = 0\<close> and \<open>Avg_Daily_Velocity = 0\<close>.  When its
  stock is a finite number \<open>c\<close>, \<open>Days_of_Cover = c / 0.001\<close>, and the score is exactly 100
  if and only if \<open>c / 0.001\<close> is at least \<open>60 + 30 * ln (7 / 3)\<close> (about 85.4), which is so
  whenever \<open>c\<close> is at least 1.  A positive stock below that threshold gives a score
  below 100.
\<close>

theorem never_sold_item:
  assumes "process_inventory parse sales_df inventory_df = (sales_df', inventory_df', Inr out)"
    and "i \<in> set inventory_df"
    and "astype_str (SKU i) \<notin> astype_str ` s_SKU ` set sales_df"
  shows "(\<exists>r \<in> set out. SKU r = astype_str (SKU i) \<and> Current_Stock r = Current_Stock i) \<and>
         (\<forall>r \<in> set out. SKU r = astype_str (SKU i) \<longrightarrow>
            Total_Units_Sold r = Fin 0 \<and> Total_Revenue r = Fin 0 \<and>
            Avg_Daily_Velocity r = Fin 0 \<and>
            (\<forall>c. Current_Stock r = Num (Fin c) \<longrightarrow>
               Days_of_Cover r = Fin (c / (1 / 1000)) \<and>
               (Death_Risk_Score r = Fin 100 \<longleftrightarrow> 60 + 30 * ln (7 / 3) \<le> c / (1 / 1000)) \<and>
               (1 \<le> c \<longrightarrow> Death_Risk_Score r = Fin 100)))"
proof (intro conjI ballI impI allI)
  show "\<exists>r \<in> set out. SKU r = astype_str (SKU i) \<and> Current_Stock r = Current_Stock i"
    using inventory_row_in_out [OF assms(1,2)] by blast
next
  fix r assume r: "r \<in> set out" and k: "SKU r = astype_str (SKU i)"
  from k assms(3) have nk: "SKU r \<notin> astype_str ` s_SKU ` set sales_df" by simp
  note u = out_row_unmatched [OF assms(1) r nk]
  from u show "Total_Units_Sold r = Fin 0" and "Total_Revenue r = Fin 0"
    and v: "Avg_Daily_Velocity r = Fin 0" by simp_all
  fix c assume c: "Current_Stock r = Num (Fin c)"
  from out_row_formulas [OF assms(1) r] c v
  have cover: "Days_of_Cover r = Fin (c / (1 / 1000))"
    and score: "Death_Risk_Score r = death_risk_score (death_risk_base (Days_of_Cover r)) 30"
    by (auto simp: cover_unsold penalty_unsold)
  from cover show "Days_of_Cover r = Fin (c / (1 / 1000))" .
  from cover score
  show iff: "Death_Risk_Score r = Fin 100 \<longleftrightarrow> 60 + 30 * ln (7 / 3) \<le> c / (1 / 1000)"
    by (simp only: score_with_penalty)
  assume "1 \<le> c"
  with ln_7_3_le have "60 + 30 * ln (7 / 3) \<le> c / (1 / 1000)" by simp
  with iff show "Death_Risk_Score r = Fin 100" by simp
qed

text \<open>The statement of C3 on Scenario B, an item with ten units and no sales.\<close>

theorem never_sold_item_witness:
  "process_inventory no_parse sales_A inventory_unsold =
     (sales_A, inventory_unsold, Inr [row_B2, row_B3, row_B4]) \<and>
   hd inventory_unsold \<in> set inventory_unsold \<and>
   astype_str (SKU (hd inventory_unsold)) \<notin> astype_str ` s_SKU ` set sales_A \<and>
   row_B2 \<in> set [row_B2, row_B3, row_B4] \<and>
   SKU row_B2 = astype_str (SKU (hd inventory_unsold)) \<and>
   Current_Stock row_B2 = Num (Fin 10) \<and> (1 :: real) \<le> 10 \<and>
   Total_Units_Sold row_B2 = Fin 0 \<and> Total_Revenue row_B2 = Fin 0 \<and>
   Avg_Daily_Velocity row_B2 = Fin 0 \<and>
   Days_of_Cover row_B2 = Fin (10 / (1 / 1000)) \<and>
   Death_Risk_Score row_B2 = Fin 100"
proof -
  have i: "hd inventory_unsold \<in> set inventory_unsold"
    by (simp add: inventory_unsold_def)
  have k: "astype_str (SKU (hd inventory_unsold)) \<notin> astype_str ` s_SKU ` set sales_A"
    by (simp add: inventory_unsold_def sales_A_def)
  have r: "row_B2 \<in> set [row_B2, row_B3, row_B4]" by simp
  have s: "SKU row_B2 = astype_str (SKU (hd inventory_unsold))"
    by (simp add: row_B2_def inventory_unsold_def)
  have c: "Current_Stock row_B2 = Num (Fin 10)" by (simp add: row_B2_def)
  note t = never_sold_item [OF run_unsold i k]
  from t r s c have "Total_Units_Sold row_B2 = Fin 0 \<and> Total_Revenue row_B2 = Fin 0 \<and>
    Avg_Daily_Velocity row_B2 = Fin 0 \<and> Days_of_Cover row_B2 = Fin (10 / (1 / 1000)) \<and>
    Death_Risk_Score row_B2 = Fin 100"
    by force
  with run_unsold i k r s c show ?thesis by simp
qed

text \<open>
  An item without sales and with a twentieth of a unit in stock has 50 days of cover
  and a score below 100.
\<close>

theorem never_sold_item_counterexample:
  "returned (process_inventory no_parse sales_A inventory_unsold) = Some [row_B2, row_B3, row_B4] \<and>
   Avg_Daily_Velocity row_B3 = Fin 0 \<and> Current_Stock row_B3 = Num (Fin (1 / 20)) \<and>
   (0 :: real) < 1 / 20 \<and> Death_Risk_Score row_B3 \<noteq> Fin 100"
  using score_B3_less by (simp add: run_unsold returned_def row_B3_def)

section \<open>Slow movers\<close>

lemma cover_slow_finite:
  assumes "f_less v (Fin (1 / 2))"
  shows "\<exists>d. days_of_cover (Fin c) v = Fin d"
  using assms by (cases v) (auto simp: days_of_cover_def replace_val_def Let_def)

lemma score_slow_floor:
  "\<exists>x. death_risk_score (death_risk_base (Fin d)) 30 = Fin x \<and> 30 < x \<and> x \<le> 100"
  using logistic_pos [of "(d - 60) / 30"]
  by (simp add: death_risk_score_def death_risk_base_def f_sub_def min_def max_def)

lemma score_no_stock:
  "death_risk_score (death_risk_base (Fin 0)) 30 = Fin (100 * (1 / (1 + exp 2)) + 30)"
proof -
  have "logistic (- 2) < 7 / 10"
    using logistic_ge_iff [of "- 2"] ln_gt_zero [of "7 / 3 :: real"] by linarith
  then have "min 100 (max 0 (logistic (- 2) * 100 + 30)) = logistic (- 2) * 100 + 30"
    using logistic_pos [of "- 2"] by (simp add: min_def max_def)
  then show ?thesis
    by (simp add: death_risk_score_def death_risk_base_def f_sub_def logistic_def)
qed

lemma score_no_stock_approx:
  "419 / 10 < 100 * (1 / (1 + exp (2 :: real))) + 30"
  "100 * (1 / (1 + exp (2 :: real))) + 30 < 4195 / 100"
proof -
  have p: "0 < 1 + exp (2 :: real)" by (simp add: add_pos_pos)
  have "119 / 10 < 100 / (1 + exp (2 :: real))"
    using p exp_2_bounds(2) by (simp add: pos_less_divide_eq algebra_simps)
  then show "419 / 10 < 100 * (1 / (1 + exp (2 :: real))) + 30" by simp
  have "100 / (1 + exp (2 :: real)) < 1195 / 100"
    using p exp_2_bounds(1) by (simp add: pos_divide_less_eq algebra_simps)
  then show "100 * (1 / (1 + exp (2 :: real))) + 30 < 4195 / 100" by simp
qed

text \<open>
  Claim C10.  A returned row whose velocity is below 0.5 and whose stock is a finite
  number has a score of at least 30.  A row of an item without sales and with a stock of
  0 has \<open>Days_of_Cover = 0\<close> and the score \<open>100 * logistic (-2) + 30\<close>, which lies between
  41.9 and 41.95 and is not 0.
\<close>

theorem slow_mover_floor:
  assumes "process_inventory parse sales_df inventory_df = (sales_df', inventory_df', Inr out)"
    and "r \<in> set out"
  shows "(\<forall>c. f_less (Avg_Daily_Velocity r) (Fin (1 / 2)) \<and> Current_Stock r = Num (Fin c) \<longrightarrow>
            (\<exists>x. Death_Risk_Score r = Fin x \<and> 30 \<le> x)) \<and>
         (SKU r \<notin> astype_str ` s_SKU ` set sales_df \<and> Current_Stock r = Num (Fin 0) \<longrightarrow>
            Days_of_Cover r = Fin 0 \<and>
            Death_Risk_Score r = Fin (100 * (1 / (1 + exp 2)) + 30) \<and>
            Death_Risk_Score r \<noteq> Fin 0 \<and>
            (\<exists>x. Death_Risk_Score r = Fin x \<and> 419 / 10 < x \<and> x < 4195 / 100))"
proof (intro conjI allI impI)
  from out_row_formulas [OF assms] obtain stock where
    stock: "Current_Stock r = Num stock"
    and cover: "Days_of_Cover r = days_of_cover stock (Avg_Daily_Velocity r)"
    and score: "Death_Risk_Score r =
      death_risk_score (death_risk_base (Days_of_Cover r)) (risk_penalty (Avg_Daily_Velocity r))"
    by auto
  {
    fix c assume a: "f_less (Avg_Daily_Velocity r) (Fin (1 / 2)) \<and> Current_Stock r = Num (Fin c)"
    with stock have "stock = Fin c" by simp
    with cover cover_slow_finite [of "Avg_Daily_Velocity r" c] a
    obtain d where "Days_of_Cover r = Fin d" by auto
    with score a have "Death_Risk_Score r = death_risk_score (death_risk_base (Fin d)) 30"
      by (simp add: risk_penalty_def)
    with score_slow_floor [of d]
    show "\<exists>x. Death_Risk_Score r = Fin x \<and> 30 \<le> x" by auto
  }
  assume b: "SKU r \<notin> astype_str ` s_SKU ` set sales_df \<and> Current_Stock r = Num (Fin 0)"
  then have "Avg_Daily_Velocity r = Fin 0"
    using out_row_unmatched [OF assms] by simp
  moreover from b stock have "stock = Fin 0" by simp
  ultimately have c0: "Days_of_Cover r = Fin 0"
    and s0: "Death_Risk_Score r = death_risk_score (death_risk_base (Fin 0)) 30"
    using cover score by (simp_all add: cover_unsold penalty_unsold)
  from c0 show "Days_of_Cover r = Fin 0" .
  from s0 show e: "Death_Risk_Score r = Fin (100 * (1 / (1 + exp 2)) + 30)"
    by (simp only: score_no_stock)
  with score_no_stock_approx
  show "\<exists>x. Death_Risk_Score r = Fin x \<and> 419 / 10 < x \<and> x < 4195 / 100" by simp
  then show "Death_Risk_Score r \<noteq> Fin 0" by auto
qed

text \<open>The statement of C10 on the item without sales and without stock.\<close>

theorem slow_mover_floor_witness:
  "process_inventory no_parse sales_A inventory_unsold =
     (sales_A, inventory_unsold, Inr [row_B2, row_B3, row_B4]) \<and>
   row_B4 \<in> set [row_B2, row_B3, row_B4] \<and>
   f_less (Avg_Daily_Velocity row_B4) (Fin (1 / 2)) \<and> Current_Stock row_B4 = Num (Fin 0) \<and>
   SKU row_B4 \<notin> astype_str ` s_SKU ` set sales_A \<and>
   (\<exists>x. Death_Risk_Score row_B4 = Fin x \<and> 30 \<le> x) \<and>
   Days_of_Cover row_B4 = Fin 0 \<and>
   Death_Risk_Score row_B4 = Fin (100 * (1 / (1 + exp 2)) + 30)"
proof -
  have r: "row_B4 \<in> set [row_B2, row_B3, row_B4]" by simp
  have v: "f_less (Avg_Daily_Velocity row_B4) (Fin (1 / 2))"
    and c: "Current_Stock row_B4 = Num (Fin 0)"
    and k: "SKU row_B4 \<notin> astype_str ` s_SKU ` set sales_A"
    by (simp_all add: row_B4_def sales_A_def)
  note t = slow_mover_floor [OF run_unsold r]
  from t v c have "\<exists>x. Death_Risk_Score row_B4 = Fin x \<and> 30 \<le> x" by blast
  moreover from t k c have "Days_of_Cover row_B4 = Fin 0 \<and>
      Death_Risk_Score row_B4 = Fin (100 * (1 / (1 + exp 2)) + 30)" by blast
  ultimately show ?thesis using run_unsold r v c k by blast
qed

text \<open>
  The row with an empty stock cell has velocity 0, below 0.5, and score NaN, which is
  not at least 30.
\<close>

theorem slow_mover_floor_counterexample:
  "returned (process_inventory no_parse [] inventory_null) = Some [row_null] \<and>
   f_less (Avg_Daily_Velocity row_null) (Fin (1 / 2)) \<and>
   \<not> f_le (Fin 30) (Death_Risk_Score row_null)"
  by (simp add: run_null returned_def row_null_def f_le_def)

section \<open>Sums of a column\<close>


lemma float_max_lt: "float_max < 2 * 10 ^ 308"
  by (simp add: float_max_def)






lemma nonneg_not_NaN: "nonneg_number x \<Longrightarrow> x \<noteq> NaN"
  by (cases x) simp_all







section \<open>The sales rollup\<close>















lemma agg_A:
  "rollup_of no_parse sales_A (s_SKU (hd sales_A)) =
     \<lparr>g_SKU = KStr ''A1'', g_Total_Units_Sold = Fin 35, g_Total_Revenue = Fin 350,
      g_Min_Date = DateTime (19723 * ns_per_day), g_Max_Date = DateTime (19742 * ns_per_day),
      g_Period_Days = 20, g_Avg_Daily_Velocity = Fin (7 / 4)\<rparr>"
  by (simp add: run_defs sales_A_def)

lemma agg_undated:
  "rollup_of no_parse sales_undated (s_SKU (hd sales_undated)) =
     \<lparr>g_SKU = KStr ''U1'', g_Total_Units_Sold = Fin 4, g_Total_Revenue = Fin 40,
      g_Min_Date = NaT, g_Max_Date = NaT,
      g_Period_Days = 1, g_Avg_Daily_Velocity = Fin 4\<rparr>"
  by (simp add: run_defs sales_undated_def)












section \<open>Sell-through\<close>








section \<open>Further runs on the example tables\<close>

lemma run_mixed_length:
  "map_option length (returned (process_inventory no_parse sales_mixed inventory_mixed)) = Some 2"
  by (simp add: run_defs returned_def sales_mixed_def inventory_mixed_def str_int_101)

lemma run_mixed_rows:
  "map_option (map SKU) (returned (process_inventory no_parse sales_mixed inventory_mixed)) =
     Some [KStr ''101'', KStr ''101'']"
  "map_option (map Total_Units_Sold) (returned (process_inventory no_parse sales_mixed inventory_mixed)) =
     Some [Fin 5, Fin 3]"
  by (simp_all add: run_defs returned_def sales_mixed_def inventory_mixed_def str_int_101)

lemma run_mixed_inventory:
  "fst (snd (process_inventory no_parse sales_mixed inventory_mixed)) =
     [\<lparr>SKU = KStr ''101'', Current_Stock = Num (Fin 10), Cost_Price = Num (Fin 5),
       Margin = Num (Fin (1 / 5))\<rparr>]"
  by (simp add: process_inventory_eq stringify_skus_def inventory_mixed_def str_int_101)

lemma run_undated_sales:
  "fst (process_inventory no_parse sales_undated inventory_A) =
     [\<lparr>s_SKU = KStr ''U1'', Date = NaT, Units_Sold = Fin 4, Revenue = Fin 40\<rparr>]"
  by (simp add: process_inventory_eq parse_dates_def sales_undated_def no_parse_def)

section \<open>Empty and text cells in the inventory\<close>

lemma run_null_sold:
  "process_inventory no_parse sales_A inventory_null = (sales_A, inventory_null, Inr [row_null])"
  by (simp add: run_defs sales_A_def inventory_null_def row_null_def signed_inf_def)

lemma run_no_margin:
  "process_inventory no_parse sales_A inventory_no_margin =
     (sales_A, inventory_no_margin, Inr [row_no_margin])"
  by (simp add: run_defs sales_A_def inventory_no_margin_def row_no_margin_def)

lemma run_text_sold:
  "process_inventory no_parse sales_A inventory_text = (sales_A, inventory_text, Inl TypeError)"
  by (simp add: run_defs sales_A_def inventory_text_def)

lemma run_no_inventory:
  "process_inventory no_parse sales_A [] = (sales_A, [], Inl TypeError)"
  by (simp add: run_defs sales_A_def)

lemma merged_table_empty_iff:
  "merged_table parse sales_df inventory_df = [] \<longleftrightarrow> inventory_df = []"
proof
  assume e: "merged_table parse sales_df inventory_df = []"
  show "inventory_df = []"
  proof (rule ccontr)
    assume "inventory_df \<noteq> []"
    then obtain i where "i \<in> set inventory_df" by (cases inventory_df) auto
    from inventory_row_in_merged [OF this, of parse sales_df] e show False by simp
  qed
next
  assume "inventory_df = []"
  then show "merged_table parse sales_df inventory_df = []"
    by (simp add: merged_table_def merge_left_def stringify_skus_def)
qed

lemma merged_row_inventory:
  assumes "m \<in> set (merged_table parse sales_df inventory_df)"
  shows "\<exists>i \<in> set inventory_df. Current_Stock m = Current_Stock i \<and>
           Cost_Price m = Cost_Price i \<and> Margin m = Margin i"
proof -
  from assms obtain x i where i: "i \<in> set inventory_df"
    and x: "x \<in> set (merge_row (map (\<lambda>g. g\<lparr>g_SKU := astype_str (g_SKU g)\<rparr>)
                (groupby_agg (parse_dates parse sales_df))) (i\<lparr>SKU := astype_str (SKU i)\<rparr>))"
    and m: "m = fill_sales x"
    by (auto simp: merged_table_def merge_left_def stringify_skus_def)
  from merge_row_inventory_fields [OF x] m
  have "Current_Stock m = Current_Stock i \<and> Cost_Price m = Cost_Price i \<and> Margin m = Margin i"
    by (simp add: fill_sales_def)
  with i show ?thesis by blast
qed

lemma error_is_TypeError: "(e :: error) = TypeError"
  by (cases e) simp

lemma result_Inr_iff:
  assumes "inventory_df \<noteq> []"
  shows "(\<exists>out. snd (snd (process_inventory parse sales_df inventory_df)) = Inr out) \<longleftrightarrow>
   (\<forall>i \<in> set inventory_df. is_num (Current_Stock i) \<and> is_num (Cost_Price i) \<and> is_num (Margin i))"
  (is "?L \<longleftrightarrow> ?R")
proof
  from assms have ne: "merged_table parse sales_df inventory_df \<noteq> []"
    by (simp add: merged_table_empty_iff)
  assume ?L
  then obtain out where o: "collect (map derive (merged_table parse sales_df inventory_df)) = Inr out"
    using ne by (auto simp: process_inventory_eq)
  then have eq: "map derive (merged_table parse sales_df inventory_df) = map Inr out"
    by (rule collect_Inr_D)
  show ?R
  proof
    fix i assume "i \<in> set inventory_df"
    from inventory_row_in_merged [OF this, of parse sales_df] obtain m
      where m: "m \<in> set (merged_table parse sales_df inventory_df)"
        and f: "Current_Stock m = Current_Stock i \<and> Cost_Price m = Cost_Price i \<and> Margin m = Margin i"
      by blast
    from m have "derive m \<in> set (map derive (merged_table parse sales_df inventory_df))" by simp
    with eq have "derive m \<in> set (map Inr out)" by simp
    then have "\<not> (\<exists>e. derive m = Inl e)" by auto
    then have "is_num (Current_Stock m) \<and> is_num (Cost_Price m) \<and> is_num (Margin m)"
      by (simp only: derive_Inl_iff) simp
    with f show "is_num (Current_Stock i) \<and> is_num (Cost_Price i) \<and> is_num (Margin i)"
      by simp
  qed
next
  from assms have ne: "merged_table parse sales_df inventory_df \<noteq> []"
    by (simp add: merged_table_empty_iff)
  assume r: ?R
  show ?L
  proof (cases "collect (map derive (merged_table parse sales_df inventory_df))")
    case (Inl e)
    then have "Inl e \<in> set (map derive (merged_table parse sales_df inventory_df))"
      by (rule collect_Inl_D)
    then obtain m where m: "m \<in> set (merged_table parse sales_df inventory_df)"
      and d: "derive m = Inl e" by auto
    from merged_row_inventory [OF m] r
    have "is_num (Current_Stock m) \<and> is_num (Cost_Price m) \<and> is_num (Margin m)" by auto
    with derive_Inl_iff [of m] d show ?thesis by blast
  next
    case (Inr out)
    with ne show ?thesis by (simp add: process_inventory_eq)
  qed
qed

lemma result_no_inventory:
  "snd (snd (process_inventory parse sales_df [])) = Inl TypeError"
  by (simp add: process_inventory_eq merged_table_empty_iff)

lemma sell_through_NaN: "sell_through_rate u NaN = Fin 0"
  by (cases u) (simp_all add: sell_through_rate_def)

lemma selling_price_NaN: "selling_price c NaN = NaN"
  by (cases c) (simp_all add: selling_price_def f_sub_def)

lemma f_mul_NaN_right: "f_mul x NaN = NaN"
  by (cases x) simp_all

text \<open>
  Claim C7.  \<open>process_inventory\<close> has no error of its own for bad cells.  On a sales table
  with at least one row: an inventory without rows raises a \<open>TypeError\<close>; an inventory
  with rows returns a table exactly when no cell of \<open>Current_Stock\<close>, \<open>Cost_Price\<close> and
  \<open>Margin\<close> is a text, and otherwise the arithmetic raises a \<open>TypeError\<close>, which names no
  item.  An empty (NaN) cell raises nothing: with an empty stock the row has
  \<open>Days_of_Cover\<close>, \<open>Stock_Value\<close> and the score NaN and a sell-through rate of 0; with
  an empty margin the row has \<open>Selling_Price\<close> and \<open>Stock_Value\<close> NaN.
\<close>

theorem null_and_text_cells:
  "(sales_df \<noteq> [] \<and> inventory_df = [] \<longrightarrow>
      snd (snd (process_inventory parse sales_df inventory_df)) = Inl TypeError) \<and>
   (sales_df \<noteq> [] \<and> inventory_df \<noteq> [] \<longrightarrow>
      ((\<exists>out. snd (snd (process_inventory parse sales_df inventory_df)) = Inr out) \<longleftrightarrow>
       (\<forall>i \<in> set inventory_df.
          is_num (Current_Stock i) \<and> is_num (Cost_Price i) \<and> is_num (Margin i)))) \<and>
   (sales_df \<noteq> [] \<and> inventory_df \<noteq> [] \<longrightarrow>
      (snd (snd (process_inventory parse sales_df inventory_df)) = Inl TypeError \<longleftrightarrow>
       \<not> (\<forall>i \<in> set inventory_df.
          is_num (Current_Stock i) \<and> is_num (Cost_Price i) \<and> is_num (Margin i)))) \<and>
   (\<forall>out r. snd (snd (process_inventory parse sales_df inventory_df)) = Inr out \<and> r \<in> set out \<and>
        Current_Stock r = Num NaN \<longrightarrow>
        Days_of_Cover r = NaN \<and> Sell_Through_Rate r = Fin 0 \<and> Stock_Value r = NaN \<and>
        Death_Risk_Score r = NaN) \<and>
   (\<forall>out r. snd (snd (process_inventory parse sales_df inventory_df)) = Inr out \<and> r \<in> set out \<and>
        Margin r = Num NaN \<longrightarrow>
        Selling_Price r = NaN \<and> Stock_Value r = NaN)"
proof -
  have e: "sales_df \<noteq> [] \<and> inventory_df = [] \<longrightarrow>
      snd (snd (process_inventory parse sales_df inventory_df)) = Inl TypeError"
    by (simp add: result_no_inventory)
  have a: "sales_df \<noteq> [] \<and> inventory_df \<noteq> [] \<longrightarrow>
      ((\<exists>out. snd (snd (process_inventory parse sales_df inventory_df)) = Inr out) \<longleftrightarrow>
       (\<forall>i \<in> set inventory_df.
          is_num (Current_Stock i) \<and> is_num (Cost_Price i) \<and> is_num (Margin i)))"
    using result_Inr_iff [where inventory_df = inventory_df and parse = parse and sales_df = sales_df] by blast
  have b: "sales_df \<noteq> [] \<and> inventory_df \<noteq> [] \<longrightarrow>
      (snd (snd (process_inventory parse sales_df inventory_df)) = Inl TypeError \<longleftrightarrow>
       \<not> (\<forall>i \<in> set inventory_df.
          is_num (Current_Stock i) \<and> is_num (Cost_Price i) \<and> is_num (Margin i)))"
  proof
    assume "sales_df \<noteq> [] \<and> inventory_df \<noteq> []"
    then have "inventory_df \<noteq> []" by simp
    note i = result_Inr_iff [OF this, where parse = parse and sales_df = sales_df, symmetric]
    show "snd (snd (process_inventory parse sales_df inventory_df)) = Inl TypeError \<longleftrightarrow>
       \<not> (\<forall>i \<in> set inventory_df.
          is_num (Current_Stock i) \<and> is_num (Cost_Price i) \<and> is_num (Margin i))"
      unfolding i
      by (cases "snd (snd (process_inventory parse sales_df inventory_df))")
         (simp_all add: error_is_TypeError)
  qed
  have c: "\<forall>out r. snd (snd (process_inventory parse sales_df inventory_df)) = Inr out \<and> r \<in> set out \<and>
        Current_Stock r = Num NaN \<longrightarrow>
        Days_of_Cover r = NaN \<and> Sell_Through_Rate r = Fin 0 \<and> Stock_Value r = NaN \<and>
        Death_Risk_Score r = NaN"
  proof (intro allI impI)
    fix out r
    assume h: "snd (snd (process_inventory parse sales_df inventory_df)) = Inr out \<and> r \<in> set out \<and>
        Current_Stock r = Num NaN"
    then have run: "process_inventory parse sales_df inventory_df =
        (parse_dates parse sales_df, stringify_skus inventory_df, Inr out)"
      by (simp add: process_inventory_eq)
    from h have r: "r \<in> set out" by simp
    from out_row_formulas [OF run r] h
    show "Days_of_Cover r = NaN \<and> Sell_Through_Rate r = Fin 0 \<and> Stock_Value r = NaN \<and>
        Death_Risk_Score r = NaN"
      by (auto simp: cover_NaN sell_through_NaN base_NaN score_NaN)
  qed
  have d: "\<forall>out r. snd (snd (process_inventory parse sales_df inventory_df)) = Inr out \<and> r \<in> set out \<and>
        Margin r = Num NaN \<longrightarrow>
        Selling_Price r = NaN \<and> Stock_Value r = NaN"
  proof (intro allI impI)
    fix out r
    assume h: "snd (snd (process_inventory parse sales_df inventory_df)) = Inr out \<and> r \<in> set out \<and>
        Margin r = Num NaN"
    then have run: "process_inventory parse sales_df inventory_df =
        (parse_dates parse sales_df, stringify_skus inventory_df, Inr out)"
      by (simp add: process_inventory_eq)
    from h have r: "r \<in> set out" by simp
    from out_row_formulas [OF run r] h
    show "Selling_Price r = NaN \<and> Stock_Value r = NaN"
      by (auto simp: selling_price_NaN f_mul_NaN_right)
  qed
  from e a b c d show ?thesis by blast
qed

text \<open>
  An inventory row with an empty stock cell, run with the sales of Scenario A: a table is
  returned, and its row has no score.
\<close>

theorem null_and_text_cells_counterexample:
  "sales_A \<noteq> [] \<and> Current_Stock (hd inventory_null) = Num NaN \<and>
   returned (process_inventory no_parse sales_A inventory_null) = Some [row_null] \<and>
   Death_Risk_Score row_null = NaN"
proof -
  have "sales_A \<noteq> []" by (simp add: sales_A_def)
  moreover have "Current_Stock (hd inventory_null) = Num NaN"
    by (simp add: inventory_null_def)
  moreover have "returned (process_inventory no_parse sales_A inventory_null) = Some [row_null]"
    by (simp add: run_null_sold returned_def)
  moreover have "Death_Risk_Score row_null = NaN"
    by (simp add: row_null_def)
  ultimately show ?thesis by blast
qed

text \<open>
  The statement of C7 on an inventory without rows, an empty stock cell, an empty margin
  cell and a text cell, each with the sales of Scenario A.
\<close>

theorem null_and_text_cells_witness:
  "snd (snd (process_inventory no_parse sales_A [])) = Inl TypeError \<and>
   sales_A \<noteq> [] \<and> inventory_null \<noteq> [] \<and>
   list_all (\<lambda>i. is_num (Current_Stock i) \<and> is_num (Cost_Price i) \<and> is_num (Margin i))
     inventory_null \<and>
   snd (snd (process_inventory no_parse sales_A inventory_null)) = Inr [row_null] \<and>
   row_null \<in> set [row_null] \<and> Current_Stock row_null = Num NaN \<and>
   Days_of_Cover row_null = NaN \<and> Sell_Through_Rate row_null = Fin 0 \<and>
   Stock_Value row_null = NaN \<and> Death_Risk_Score row_null = NaN \<and>
   snd (snd (process_inventory no_parse sales_A inventory_no_margin)) = Inr [row_no_margin] \<and>
   row_no_margin \<in> set [row_no_margin] \<and> Margin row_no_margin = Num NaN \<and>
   Selling_Price row_no_margin = NaN \<and> Stock_Value row_no_margin = NaN \<and>
   inventory_text \<noteq> [] \<and>
   \<not> list_all (\<lambda>i. is_num (Current_Stock i) \<and> is_num (Cost_Price i) \<and> is_num (Margin i))
     inventory_text \<and>
   snd (snd (process_inventory no_parse sales_A inventory_text)) = Inl TypeError"
proof -
  note te = null_and_text_cells [where inventory_df = "[]" and parse = no_parse and sales_df = sales_A]
  note tn = null_and_text_cells [where inventory_df = inventory_null and parse = no_parse and sales_df = sales_A]
  note tm = null_and_text_cells [where inventory_df = inventory_no_margin and parse = no_parse and sales_df = sales_A]
  note tt = null_and_text_cells [where inventory_df = inventory_text and parse = no_parse and sales_df = sales_A]
  have s: "sales_A \<noteq> []" by (simp add: sales_A_def)
  have ne: "inventory_null \<noteq> []" "inventory_text \<noteq> []"
    by (simp_all add: inventory_null_def inventory_text_def)
  from te s have 0: "snd (snd (process_inventory no_parse sales_A [])) = Inl TypeError"
    by blast
  have n: "\<forall>i \<in> set inventory_null.
      is_num (Current_Stock i) \<and> is_num (Cost_Price i) \<and> is_num (Margin i)"
    by (simp add: inventory_null_def)
  have t: "\<not> (\<forall>i \<in> set inventory_text.
      is_num (Current_Stock i) \<and> is_num (Cost_Price i) \<and> is_num (Margin i))"
    by (simp add: inventory_text_def)
  from tn s ne n have "\<exists>out. snd (snd (process_inventory no_parse sales_A inventory_null)) = Inr out"
    by blast
  have o: "snd (snd (process_inventory no_parse sales_A inventory_null)) = Inr [row_null]"
    by (simp add: run_null_sold)
  have r: "row_null \<in> set [row_null]" by simp
  have c: "Current_Stock row_null = Num NaN" by (simp add: row_null_def)
  from tn o r c have 1: "Days_of_Cover row_null = NaN \<and> Sell_Through_Rate row_null = Fin 0 \<and>
   Stock_Value row_null = NaN \<and> Death_Risk_Score row_null = NaN"
    by blast
  from tt s ne t have 2: "snd (snd (process_inventory no_parse sales_A inventory_text)) = Inl TypeError"
    by blast
  have om: "snd (snd (process_inventory no_parse sales_A inventory_no_margin)) = Inr [row_no_margin]"
    by (simp add: run_no_margin)
  have rm: "row_no_margin \<in> set [row_no_margin]" by simp
  have cm: "Margin row_no_margin = Num NaN" by (simp add: row_no_margin_def)
  from tm om rm cm
  have 3: "Selling_Price row_no_margin = NaN \<and> Stock_Value row_no_margin = NaN"
    by blast
  have n': "list_all (\<lambda>i. is_num (Current_Stock i) \<and> is_num (Cost_Price i) \<and> is_num (Margin i))
     inventory_null"
    by (simp add: inventory_null_def)
  have t': "\<not> list_all (\<lambda>i. is_num (Current_Stock i) \<and> is_num (Cost_Price i) \<and> is_num (Margin i))
     inventory_text"
    by (simp add: inventory_text_def)
  from 0 s ne n' o r c 1 t' 2 om rm cm 3 show ?thesis by blast
qed

section \<open>Effects on the arguments\<close>

lemma to_datetime_idem: "to_datetime parse (to_datetime parse c) = to_datetime parse c"
  by (cases c) (simp_all split: option.splits)

lemma astype_str_idem: "astype_str (astype_str k) = astype_str k"
  by (cases k) simp_all

lemma parse_dates_idem: "parse_dates parse (parse_dates parse df) = parse_dates parse df"
  by (simp add: parse_dates_def to_datetime_idem)

lemma stringify_skus_idem: "stringify_skus (stringify_skus df) = stringify_skus df"
  by (simp add: stringify_skus_def astype_str_idem)

lemma merged_table_idem:
  "merged_table parse (parse_dates parse sales_df) (stringify_skus inventory_df) =
   merged_table parse sales_df inventory_df"
  by (simp add: merged_table_def parse_dates_idem stringify_skus_idem)

lemma to_datetime_fixed: "(\<forall>t. c \<noteq> DateStr t) \<Longrightarrow> to_datetime parse c = c"
  by (cases c) simp_all

lemma astype_str_fixed: "astype_str (KStr t) = KStr t"
  by simp

text \<open>
  Claim C8.  A call of \<open>process_inventory\<close> leaves the sales table with its \<open>Date\<close> column
  parsed and the inventory table with its \<open>SKU\<close> column turned into strings, and nothing
  else changed; the tables are as before exactly when there was nothing to parse and
  nothing to turn into a string.  A call on the tables so left returns the same result
  and leaves them as they are, so the result is a function of the values of the two
  tables.
\<close>

theorem process_inventory_effects:
  assumes "process_inventory parse sales_df inventory_df = (sales_df', inventory_df', res)"
  shows "sales_df' = map (\<lambda>r. r\<lparr>Date := to_datetime parse (Date r)\<rparr>) sales_df \<and>
         inventory_df' = map (\<lambda>r. r\<lparr>SKU := astype_str (SKU r)\<rparr>) inventory_df \<and>
         process_inventory parse sales_df' inventory_df' = (sales_df', inventory_df', res) \<and>
         ((\<forall>r \<in> set sales_df. \<forall>t. Date r \<noteq> DateStr t) \<longrightarrow> sales_df' = sales_df) \<and>
         ((\<forall>i \<in> set inventory_df. \<exists>t. SKU i = KStr t) \<longrightarrow> inventory_df' = inventory_df)"
proof -
  from assms have s: "sales_df' = parse_dates parse sales_df"
    and i: "inventory_df' = stringify_skus inventory_df"
    and r: "res = (if merged_table parse sales_df inventory_df = [] then Inl TypeError
                   else collect (map derive (merged_table parse sales_df inventory_df)))"
    by (auto simp: process_inventory_eq)
  have 1: "sales_df' = map (\<lambda>r. r\<lparr>Date := to_datetime parse (Date r)\<rparr>) sales_df"
    using s by (simp add: parse_dates_def)
  have 2: "inventory_df' = map (\<lambda>r. r\<lparr>SKU := astype_str (SKU r)\<rparr>) inventory_df"
    using i by (simp add: stringify_skus_def)
  have 3: "process_inventory parse sales_df' inventory_df' = (sales_df', inventory_df', res)"
    unfolding s i r
    by (simp add: process_inventory_eq parse_dates_idem stringify_skus_idem merged_table_idem)
  have 4: "(\<forall>r \<in> set sales_df. \<forall>t. Date r \<noteq> DateStr t) \<longrightarrow> sales_df' = sales_df"
  proof
    assume "\<forall>r \<in> set sales_df. \<forall>t. Date r \<noteq> DateStr t"
    then have "map (\<lambda>r. r\<lparr>Date := to_datetime parse (Date r)\<rparr>) sales_df = map (\<lambda>r. r) sales_df"
      by (intro map_cong refl) (simp add: to_datetime_fixed)
    with 1 show "sales_df' = sales_df" by simp
  qed
  have 5: "(\<forall>i \<in> set inventory_df. \<exists>t. SKU i = KStr t) \<longrightarrow> inventory_df' = inventory_df"
  proof
    assume "\<forall>i \<in> set inventory_df. \<exists>t. SKU i = KStr t"
    then have "map (\<lambda>r. r\<lparr>SKU := astype_str (SKU r)\<rparr>) inventory_df = map (\<lambda>r. r) inventory_df"
      by (intro map_cong refl) auto
    with 2 show "inventory_df' = inventory_df" by simp
  qed
  from 1 2 3 4 5 show ?thesis by blast
qed

text \<open>The statement of C8 on Scenario A, whose tables stay as they are.\<close>

theorem process_inventory_effects_witness:
  "process_inventory no_parse sales_A inventory_A = (sales_A, inventory_A, Inr [row_A]) \<and>
   map Date sales_A = [midnight 19723, midnight 19732, midnight 19742] \<and>
   map SKU inventory_A = [KStr ''A1''] \<and>
   sales_A = map (\<lambda>r. r\<lparr>Date := to_datetime no_parse (Date r)\<rparr>) sales_A \<and>
   inventory_A = map (\<lambda>r. r\<lparr>SKU := astype_str (SKU r)\<rparr>) inventory_A"
proof -
  note t = process_inventory_effects [OF run_A]
  have d: "\<forall>r \<in> set sales_A. \<forall>t. Date r \<noteq> DateStr t"
    by (simp add: sales_A_def midnight_def)
  have k: "\<forall>i \<in> set inventory_A. \<exists>t. SKU i = KStr t"
    by (simp add: inventory_A_def)
  have d': "map Date sales_A = [midnight 19723, midnight 19732, midnight 19742]"
    by (simp add: sales_A_def)
  have k': "map SKU inventory_A = [KStr ''A1'']"
    by (simp add: inventory_A_def)
  from t d k d' k' run_A show ?thesis by blast
qed

text \<open>
  An inventory table with a numeric identifier and a sales table with a text in the
  date column are not the same after the call.
\<close>

theorem process_inventory_effects_counterexample:
  "fst (snd (process_inventory no_parse sales_mixed inventory_mixed)) \<noteq> inventory_mixed \<and>
   fst (process_inventory no_parse sales_undated inventory_A) \<noteq> sales_undated"
proof -
  have "fst (snd (process_inventory no_parse sales_mixed inventory_mixed)) \<noteq> inventory_mixed"
    unfolding run_mixed_inventory by (simp add: inventory_mixed_def)
  moreover have "fst (process_inventory no_parse sales_undated inventory_A) \<noteq> sales_undated"
    unfolding run_undated_sales by (simp add: sales_undated_def)
  ultimately show ?thesis by blast
qed

section \<open>Reading the workbook\<close>

lemma read_sheet_cases:
  "read_sheet rd cols f sheet =
     (case rd f sheet 0 of
        Inl e \<Rightarrow> Inl e
      | Inr df \<Rightarrow>
          if ''SKU'' \<in> set (cols df) then Inr df
          else (case rd f sheet 1 of
                  Inl e \<Rightarrow> Inl e
                | Inr df1 \<Rightarrow> if ''SKU'' \<in> set (cols df1) then Inr df1 else Inr df))"
  by (simp add: read_sheet_def Let_def split: sum.splits)

text \<open>
  What \<open>load_data\<close> returns, path by path.  It takes the reading of a sheet with the
  header on row 0 when its columns contain \<open>SKU\<close>; otherwise the reading with the header
  on row 1 when that one contains \<open>SKU\<close>; when the second reading succeeds and lacks
  \<open>SKU\<close> too, the row-0 reading again.  When any read raises, also the second one,
  \<open>load_data\<close> returns no table and the message of the error.  Its result is always
  either both tables and no error, or no table and an error.
\<close>

lemma load_data_contract:
  "(\<forall>sheet df. rd f sheet 0 = Inr df \<and> ''SKU'' \<in> set (cols df) \<longrightarrow>
      read_sheet rd cols f sheet = Inr df) \<and>
   (\<forall>sheet df df1. rd f sheet 0 = Inr df \<and> ''SKU'' \<notin> set (cols df) \<and>
      rd f sheet 1 = Inr df1 \<and> ''SKU'' \<in> set (cols df1) \<longrightarrow>
      read_sheet rd cols f sheet = Inr df1) \<and>
   (\<forall>sheet df df1. rd f sheet 0 = Inr df \<and> ''SKU'' \<notin> set (cols df) \<and>
      rd f sheet 1 = Inr df1 \<and> ''SKU'' \<notin> set (cols df1) \<longrightarrow>
      read_sheet rd cols f sheet = Inr df) \<and>
   (\<forall>sheet e. rd f sheet 0 = Inl e \<longrightarrow> read_sheet rd cols f sheet = Inl e) \<and>
   (\<forall>sheet df e. rd f sheet 0 = Inr df \<and> ''SKU'' \<notin> set (cols df) \<and> rd f sheet 1 = Inl e \<longrightarrow>
      read_sheet rd cols f sheet = Inl e) \<and>
   (\<forall>s i. read_sheet rd cols f ''Sales'' = Inr s \<and> read_sheet rd cols f ''Inventory'' = Inr i \<longrightarrow>
      load_data rd cols f = (Some s, Some i, None)) \<and>
   (\<forall>e. read_sheet rd cols f ''Sales'' = Inl e \<longrightarrow> load_data rd cols f = (None, None, Some e)) \<and>
   (\<forall>s e. read_sheet rd cols f ''Sales'' = Inr s \<and> read_sheet rd cols f ''Inventory'' = Inl e \<longrightarrow>
      load_data rd cols f = (None, None, Some e)) \<and>
   ((\<exists>s i. load_data rd cols f = (Some s, Some i, None)) \<or>
    (\<exists>e. load_data rd cols f = (None, None, Some e)))"
proof -
  have 1: "\<forall>sheet df. rd f sheet 0 = Inr df \<and> ''SKU'' \<in> set (cols df) \<longrightarrow>
      read_sheet rd cols f sheet = Inr df"
    by (simp add: read_sheet_cases)
  have 2: "\<forall>sheet df df1. rd f sheet 0 = Inr df \<and> ''SKU'' \<notin> set (cols df) \<and>
      rd f sheet 1 = Inr df1 \<and> ''SKU'' \<in> set (cols df1) \<longrightarrow>
      read_sheet rd cols f sheet = Inr df1"
    by (simp add: read_sheet_cases)
  have 3: "\<forall>sheet df df1. rd f sheet 0 = Inr df \<and> ''SKU'' \<notin> set (cols df) \<and>
      rd f sheet 1 = Inr df1 \<and> ''SKU'' \<notin> set (cols df1) \<longrightarrow>
      read_sheet rd cols f sheet = Inr df"
    by (simp add: read_sheet_cases)
  have 4: "\<forall>sheet e. rd f sheet 0 = Inl e \<longrightarrow> read_sheet rd cols f sheet = Inl e"
    by (simp add: read_sheet_cases)
  have 5: "\<forall>sheet df e. rd f sheet 0 = Inr df \<and> ''SKU'' \<notin> set (cols df) \<and> rd f sheet 1 = Inl e \<longrightarrow>
      read_sheet rd cols f sheet = Inl e"
    by (simp add: read_sheet_cases)
  have 6: "\<forall>s i. read_sheet rd cols f ''Sales'' = Inr s \<and> read_sheet rd cols f ''Inventory'' = Inr i \<longrightarrow>
      load_data rd cols f = (Some s, Some i, None)"
    by (simp add: load_data_def)
  have 7: "\<forall>e. read_sheet rd cols f ''Sales'' = Inl e \<longrightarrow> load_data rd cols f = (None, None, Some e)"
    by (simp add: load_data_def)
  have 8: "\<forall>s e. read_sheet rd cols f ''Sales'' = Inr s \<and> read_sheet rd cols f ''Inventory'' = Inl e \<longrightarrow>
      load_data rd cols f = (None, None, Some e)"
    by (simp add: load_data_def)
  have 9: "(\<exists>s i. load_data rd cols f = (Some s, Some i, None)) \<or>
    (\<exists>e. load_data rd cols f = (None, None, Some e))"
    by (cases "read_sheet rd cols f ''Sales''"; cases "read_sheet rd cols f ''Inventory''")
       (simp_all add: load_data_def)
  from 1 2 3 4 5 6 7 8 9 show ?thesis by blast
qed

text \<open>
  The paths of \<open>load_data\<close> on a workbook whose sheets have the header on row 0, on row 1,
  on neither row, a sheet of one row, and on workbooks that lack a sheet.
\<close>

lemmas reader_defs = example_read_excel_def example_workbook_def

lemma load_data_paths_example:
  "example_read_excel example_workbook ''Sales'' 0 =
     Inr ([''SKU'', ''Date'', ''Units_Sold'', ''Revenue''], [[''A1'', ''d'', ''10'', ''100'']]) \<and>
   read_sheet example_read_excel fst example_workbook ''Sales'' =
     Inr ([''SKU'', ''Date'', ''Units_Sold'', ''Revenue''], [[''A1'', ''d'', ''10'', ''100'']]) \<and>
   example_read_excel example_workbook ''Inventory'' 0 =
     Inr ([''Stock report''], [[''SKU'', ''Current_Stock'', ''Cost_Price'', ''Margin''],
                              [''A1'', ''100'', ''40'', ''0.5'']]) \<and>
   example_read_excel example_workbook ''Inventory'' 1 =
     Inr ([''SKU'', ''Current_Stock'', ''Cost_Price'', ''Margin''], [[''A1'', ''100'', ''40'', ''0.5'']]) \<and>
   read_sheet example_read_excel fst example_workbook ''Inventory'' =
     Inr ([''SKU'', ''Current_Stock'', ''Cost_Price'', ''Margin''], [[''A1'', ''100'', ''40'', ''0.5'']]) \<and>
   example_read_excel example_workbook ''Notes'' 0 = Inr ([''free text''], [[''more text''], [''x'']]) \<and>
   example_read_excel example_workbook ''Notes'' 1 = Inr ([''more text''], [[''x'']]) \<and>
   read_sheet example_read_excel fst example_workbook ''Notes'' =
     Inr ([''free text''], [[''more text''], [''x'']]) \<and>
   example_read_excel example_workbook ''Budget'' 0 = Inl ''Worksheet not found'' \<and>
   read_sheet example_read_excel fst example_workbook ''Budget'' = Inl ''Worksheet not found'' \<and>
   example_read_excel example_workbook ''Title'' 0 = Inr ([''Report''], []) \<and>
   example_read_excel example_workbook ''Title'' 1 = Inl ''header row out of range'' \<and>
   read_sheet example_read_excel fst example_workbook ''Title'' = Inl ''header row out of range'' \<and>
   load_data example_read_excel fst example_workbook =
     (Some ([''SKU'', ''Date'', ''Units_Sold'', ''Revenue''], [[''A1'', ''d'', ''10'', ''100'']]),
      Some ([''SKU'', ''Current_Stock'', ''Cost_Price'', ''Margin''], [[''A1'', ''100'', ''40'', ''0.5'']]),
      None) \<and>
   read_sheet example_read_excel fst [] ''Sales'' = Inl ''Worksheet not found'' \<and>
   load_data example_read_excel fst [] = (None, None, Some ''Worksheet not found'') \<and>
   read_sheet example_read_excel fst (take 1 example_workbook) ''Inventory'' =
     Inl ''Worksheet not found'' \<and>
   load_data example_read_excel fst (take 1 example_workbook) =
     (None, None, Some ''Worksheet not found'')"
proof -
  let ?S = "([''SKU'', ''Date'', ''Units_Sold'', ''Revenue''], [[''A1'', ''d'', ''10'', ''100'']])"
  let ?I0 = "([''Stock report''], [[''SKU'', ''Current_Stock'', ''Cost_Price'', ''Margin''],
                              [''A1'', ''100'', ''40'', ''0.5'']])"
  let ?I1 = "([''SKU'', ''Current_Stock'', ''Cost_Price'', ''Margin''], [[''A1'', ''100'', ''40'', ''0.5'']])"
  let ?N0 = "([''free text''], [[''more text''], [''x'']])"
  let ?N1 = "([''more text''], [[''x'']])"
  let ?H0 = "([''Report''], [] :: string list list)"
  note t = load_data_contract [of example_read_excel example_workbook fst]
  note t0 = load_data_contract [of example_read_excel "[]" fst]
  note t1 = load_data_contract [of example_read_excel "take 1 example_workbook" fst]
  have s0: "example_read_excel example_workbook ''Sales'' 0 =
     Inr ([''SKU'', ''Date'', ''Units_Sold'', ''Revenue''], [[''A1'', ''d'', ''10'', ''100'']])"
    by (simp add: reader_defs)
  have i0: "example_read_excel example_workbook ''Inventory'' 0 =
     Inr ([''Stock report''], [[''SKU'', ''Current_Stock'', ''Cost_Price'', ''Margin''],
                              [''A1'', ''100'', ''40'', ''0.5'']])"
    by (simp add: reader_defs)
  have i1: "example_read_excel example_workbook ''Inventory'' 1 =
     Inr ([''SKU'', ''Current_Stock'', ''Cost_Price'', ''Margin''], [[''A1'', ''100'', ''40'', ''0.5'']])"
    by (simp add: reader_defs)
  have n0: "example_read_excel example_workbook ''Notes'' 0 = Inr ([''free text''], [[''more text''], [''x'']])"
    by (simp add: reader_defs)
  have n1: "example_read_excel example_workbook ''Notes'' 1 = Inr ([''more text''], [[''x'']])"
    by (simp add: reader_defs)
  have b0: "example_read_excel example_workbook ''Budget'' 0 = Inl ''Worksheet not found''"
    by (simp add: reader_defs)
  have h0: "example_read_excel example_workbook ''Title'' 0 = Inr ([''Report''], [])"
    by (simp add: reader_defs)
  have h1: "example_read_excel example_workbook ''Title'' 1 = Inl ''header row out of range''"
    by (simp add: reader_defs)
  have e0: "example_read_excel [] ''Sales'' 0 = Inl ''Worksheet not found''"
    by (simp add: example_read_excel_def)
  have p0: "example_read_excel (take 1 example_workbook) ''Sales'' 0 =
     Inr ([''SKU'', ''Date'', ''Units_Sold'', ''Revenue''], [[''A1'', ''d'', ''10'', ''100'']])"
    by (simp add: reader_defs)
  have q0: "example_read_excel (take 1 example_workbook) ''Inventory'' 0 = Inl ''Worksheet not found''"
    by (simp add: reader_defs)
  have rs: "read_sheet example_read_excel fst example_workbook ''Sales'' = Inr ?S"
    by (rule t [THEN conjunct1, rule_format, of "''Sales''" ?S]) (insert s0, simp)
  have ri: "read_sheet example_read_excel fst example_workbook ''Inventory'' = Inr ?I1"
    by (rule t [THEN conjunct2, THEN conjunct1, rule_format, of "''Inventory''" ?I0 ?I1]) (insert i0 i1, simp)
  have rn: "read_sheet example_read_excel fst example_workbook ''Notes'' = Inr ?N0"
    by (rule t [THEN conjunct2, THEN conjunct2, THEN conjunct1, rule_format, of "''Notes''" ?N0 ?N1]) (insert n0 n1, simp)
  have rb: "read_sheet example_read_excel fst example_workbook ''Budget'' = Inl ''Worksheet not found''"
    by (rule t [THEN conjunct2, THEN conjunct2, THEN conjunct2, THEN conjunct1, rule_format, of "''Budget''" "''Worksheet not found''"]) (insert b0, simp)
  have rh: "read_sheet example_read_excel fst example_workbook ''Title'' = Inl ''header row out of range''"
    by (rule t [THEN conjunct2, THEN conjunct2, THEN conjunct2, THEN conjunct2, THEN conjunct1, rule_format, of "''Title''" ?H0 "''header row out of range''"]) (insert h0 h1, simp)
  have ld: "load_data example_read_excel fst example_workbook = (Some ?S, Some ?I1, None)"
    by (rule t [THEN conjunct2, THEN conjunct2, THEN conjunct2, THEN conjunct2, THEN conjunct2, THEN conjunct1, rule_format, of ?S ?I1]) (insert rs ri, simp)
  have r0: "read_sheet example_read_excel fst [] ''Sales'' = Inl ''Worksheet not found''"
    by (rule t0 [THEN conjunct2, THEN conjunct2, THEN conjunct2, THEN conjunct1, rule_format, of "''Sales''" "''Worksheet not found''"]) (insert e0, simp)
  have l0: "load_data example_read_excel fst [] = (None, None, Some ''Worksheet not found'')"
    by (rule t0 [THEN conjunct2, THEN conjunct2, THEN conjunct2, THEN conjunct2, THEN conjunct2, THEN conjunct2, THEN conjunct1, rule_format, of "''Worksheet not found''"]) (insert r0, simp)
  have r1s: "read_sheet example_read_excel fst (take 1 example_workbook) ''Sales'' = Inr ?S"
    by (rule t1 [THEN conjunct1, rule_format, of "''Sales''" ?S]) (insert p0, simp)
  have r1i: "read_sheet example_read_excel fst (take 1 example_workbook) ''Inventory'' =
     Inl ''Worksheet not found''"
    by (rule t1 [THEN conjunct2, THEN conjunct2, THEN conjunct2, THEN conjunct1, rule_format, of "''Inventory''" "''Worksheet not found''"]) (insert q0, simp)
  have l1: "load_data example_read_excel fst (take 1 example_workbook) =
     (None, None, Some ''Worksheet not found'')"
    by (rule t1 [THEN conjunct2, THEN conjunct2, THEN conjunct2, THEN conjunct2, THEN conjunct2, THEN conjunct2, THEN conjunct2, THEN conjunct1, rule_format, of ?S "''Worksheet not found''"]) (insert r1s r1i, simp)
  from s0 rs i0 i1 ri n0 n1 rn b0 rb h0 h1 rh ld r0 l0 r1i l1 show ?thesis
    by (intro conjI)
qed

section \<open>A header retry that raises\<close>

text \<open>
  Claim C6.  Ingestion is to return the row-0 reading of a sheet whenever neither header
  row yields the \<open>SKU\<close> column, and the comment in \<open>read_sheet\<close> says so (\<open>If neither
  works, return original\<close>).  It does when the second read succeeds.  When the row-0
  reading lacks \<open>SKU\<close> and the read with the header on row 1 raises, as on a sheet of a
  single row, \<open>read_sheet\<close> returns that error and not the row-0 reading, and \<open>load_data\<close>
  returns no table and the error, for the sheet \<open>Sales\<close> and for the sheet \<open>Inventory\<close>.
\<close>

theorem header_retry_error:
  assumes "rd f sheet 0 = Inr df" and "''SKU'' \<notin> set (cols df)" and "rd f sheet 1 = Inl e"
  shows "read_sheet rd cols f sheet = Inl e \<and>
         read_sheet rd cols f sheet \<noteq> Inr df \<and>
         (sheet = ''Sales'' \<longrightarrow> load_data rd cols f = (None, None, Some e)) \<and>
         (sheet = ''Inventory'' \<longrightarrow>
            (\<forall>s. read_sheet rd cols f ''Sales'' = Inr s \<longrightarrow>
               load_data rd cols f = (None, None, Some e))) \<and>
         (\<forall>other d d1. rd f other 0 = Inr d \<and> ''SKU'' \<notin> set (cols d) \<and>
            rd f other 1 = Inr d1 \<and> ''SKU'' \<notin> set (cols d1) \<longrightarrow>
            read_sheet rd cols f other = Inr d)"
proof -
  from assms have r: "read_sheet rd cols f sheet = Inl e"
    by (simp add: read_sheet_cases)
  then have n: "read_sheet rd cols f sheet \<noteq> Inr df" by simp
  from r have s: "sheet = ''Sales'' \<longrightarrow> load_data rd cols f = (None, None, Some e)"
    by (auto simp: load_data_def)
  from r have i: "sheet = ''Inventory'' \<longrightarrow>
            (\<forall>s. read_sheet rd cols f ''Sales'' = Inr s \<longrightarrow>
               load_data rd cols f = (None, None, Some e))"
    by (auto simp: load_data_def)
  have o: "\<forall>other d d1. rd f other 0 = Inr d \<and> ''SKU'' \<notin> set (cols d) \<and>
            rd f other 1 = Inr d1 \<and> ''SKU'' \<notin> set (cols d1) \<longrightarrow>
            read_sheet rd cols f other = Inr d"
    by (simp add: read_sheet_cases)
  from r n s i o show ?thesis by (intro conjI)
qed

lemmas short_defs = example_read_excel_def workbook_short_def workbook_short_inventory_def

text \<open>
  The statement of C6 on a workbook whose \<open>Sales\<close> sheet is a single title row, and on one
  whose \<open>Inventory\<close> sheet is; the sheet of free text, which has a second row, is returned
  in its row-0 reading.
\<close>

theorem header_retry_error_witness:
  "example_read_excel workbook_short ''Sales'' 0 = Inr ([''Report''], []) \<and>
   ''SKU'' \<notin> set (fst ([''Report''], [] :: string list list)) \<and>
   example_read_excel workbook_short ''Sales'' 1 = Inl ''header row out of range'' \<and>
   read_sheet example_read_excel fst workbook_short ''Sales'' = Inl ''header row out of range'' \<and>
   read_sheet example_read_excel fst workbook_short ''Sales'' \<noteq> Inr ([''Report''], []) \<and>
   load_data example_read_excel fst workbook_short =
     (None, None, Some ''header row out of range'') \<and>
   example_read_excel workbook_short ''Notes'' 0 = Inr ([''free text''], [[''more text'']]) \<and>
   example_read_excel workbook_short ''Notes'' 1 = Inr ([''more text''], []) \<and>
   read_sheet example_read_excel fst workbook_short ''Notes'' =
     Inr ([''free text''], [[''more text'']]) \<and>
   example_read_excel workbook_short_inventory ''Inventory'' 0 = Inr ([''Stock report''], []) \<and>
   ''SKU'' \<notin> set (fst ([''Stock report''], [] :: string list list)) \<and>
   example_read_excel workbook_short_inventory ''Inventory'' 1 = Inl ''header row out of range'' \<and>
   read_sheet example_read_excel fst workbook_short_inventory ''Sales'' =
     Inr ([''SKU'', ''Date'', ''Units_Sold'', ''Revenue''], [[''A1'', ''d'', ''10'', ''100'']]) \<and>
   read_sheet example_read_excel fst workbook_short_inventory ''Inventory'' =
     Inl ''header row out of range'' \<and>
   load_data example_read_excel fst workbook_short_inventory =
     (None, None, Some ''header row out of range'')"
proof -
  let ?H = "([''Report''], [] :: string list list)"
  let ?J = "([''Stock report''], [] :: string list list)"
  let ?S = "([''SKU'', ''Date'', ''Units_Sold'', ''Revenue''], [[''A1'', ''d'', ''10'', ''100'']])"
  let ?N0 = "([''free text''], [[''more text'']])"
  let ?N1 = "([''more text''], [] :: string list list)"
  have s0: "example_read_excel workbook_short ''Sales'' 0 = Inr ?H"
    and s1: "example_read_excel workbook_short ''Sales'' 1 = Inl ''header row out of range''"
    and n0: "example_read_excel workbook_short ''Notes'' 0 = Inr ?N0"
    and n1: "example_read_excel workbook_short ''Notes'' 1 = Inr ?N1"
    and i0: "example_read_excel workbook_short_inventory ''Inventory'' 0 = Inr ?J"
    and i1: "example_read_excel workbook_short_inventory ''Inventory'' 1 =
               Inl ''header row out of range''"
    by (simp_all add: short_defs)
  have k: "''SKU'' \<notin> set (fst ?H)" and kj: "''SKU'' \<notin> set (fst ?J)"
    and kn: "''SKU'' \<notin> set (fst ?N0)" "''SKU'' \<notin> set (fst ?N1)"
    by simp_all
  note ts = header_retry_error [where rd = example_read_excel and cols = fst, OF s0 k s1]
  note ti = header_retry_error [where rd = example_read_excel and cols = fst, OF i0 kj i1]
  from ts have 1: "read_sheet example_read_excel fst workbook_short ''Sales'' =
      Inl ''header row out of range''"
    and 2: "read_sheet example_read_excel fst workbook_short ''Sales'' \<noteq> Inr ?H"
    and 3: "load_data example_read_excel fst workbook_short =
      (None, None, Some ''header row out of range'')"
    by blast+
  from ts n0 n1 kn
  have 4: "read_sheet example_read_excel fst workbook_short ''Notes'' = Inr ?N0"
    by blast
  have 5: "read_sheet example_read_excel fst workbook_short_inventory ''Sales'' = Inr ?S"
    by (simp add: read_sheet_cases short_defs)
  from ti have 6: "read_sheet example_read_excel fst workbook_short_inventory ''Inventory'' =
      Inl ''header row out of range''"
    by blast
  from ti 5 have 7: "load_data example_read_excel fst workbook_short_inventory =
      (None, None, Some ''header row out of range'')"
    by blast
  from s0 k s1 1 2 3 n0 n1 4 i0 kj i1 5 6 7 show ?thesis by (intro conjI)
qed

section \<open>Scenario A\<close>

lemma logistic_A_bounds:
  "4755 / 100 < logistic (- (2 / 21)) * 100" "logistic (- (2 / 21)) * 100 < 4765 / 100"
proof -
  have p: "0 < 1 + exp (2 / 21 :: real)" by (simp add: add_pos_pos)
  have e: "logistic (- (2 / 21)) * 100 = 100 / (1 + exp (2 / 21))"
    by (simp add: logistic_def)
  have "4755 / 100 < 100 / (1 + exp (2 / 21 :: real))"
    using p exp_2_21_bounds(2) by (simp add: pos_less_divide_eq algebra_simps)
  with e show "4755 / 100 < logistic (- (2 / 21)) * 100" by simp
  have "100 / (1 + exp (2 / 21 :: real)) < 4765 / 100"
    using p exp_2_21_bounds(1) by (simp add: pos_divide_less_eq algebra_simps)
  with e show "logistic (- (2 / 21)) * 100 < 4765 / 100" by simp
qed

text \<open>
  Claim C9.  On Scenario A the call returns one row with 35 units sold, a period of 20
  days, a velocity of 1.75, 57.14 days of cover and a sell-through rate of 0.2593 (both
  to the digits given), a selling price of 80, a stock value of 8000, no penalty, and a
  base and a score within 0.05 of 47.6.
\<close>

theorem scenario_A:
  "returned (process_inventory no_parse sales_A inventory_A) = Some [row_A] \<and>
   Total_Units_Sold row_A = Fin 35 \<and>
   Period_Days row_A = Fin 20 \<and>
   Avg_Daily_Velocity row_A = Fin (175 / 100) \<and>
   (\<exists>d. Days_of_Cover row_A = Fin d \<and> \<bar>d - 5714 / 100\<bar> < 1 / 100) \<and>
   (\<exists>x. Sell_Through_Rate row_A = Fin x \<and> \<bar>x - 2593 / 10000\<bar> < 1 / 10000) \<and>
   Selling_Price row_A = Fin 80 \<and>
   Stock_Value row_A = Fin 8000 \<and>
   Risk_Penalty row_A = 0 \<and> \<not> f_less (Avg_Daily_Velocity row_A) (Fin (1 / 2)) \<and>
   (\<exists>b. Death_Risk_Base row_A = Fin b \<and> \<bar>b - 476 / 10\<bar> < 5 / 100) \<and>
   (\<exists>x. Death_Risk_Score row_A = Fin x \<and> \<bar>x - 476 / 10\<bar> < 5 / 100)"
proof -
  have 1: "returned (process_inventory no_parse sales_A inventory_A) = Some [row_A]"
    by (simp add: run_A returned_def)
  have 2: "Total_Units_Sold row_A = Fin 35" "Period_Days row_A = Fin 20"
    "Avg_Daily_Velocity row_A = Fin (175 / 100)"
    "Selling_Price row_A = Fin 80" "Stock_Value row_A = Fin 8000" "Risk_Penalty row_A = 0"
    "\<not> f_less (Avg_Daily_Velocity row_A) (Fin (1 / 2))"
    by (simp_all add: row_A_def)
  have "Days_of_Cover row_A = Fin (400 / 7)" by (simp add: row_A_def)
  moreover have "\<bar>400 / 7 - 5714 / 100\<bar> < (1 / 100 :: real)" by simp
  ultimately have 3: "\<exists>d. Days_of_Cover row_A = Fin d \<and> \<bar>d - 5714 / 100\<bar> < 1 / 100"
    by blast
  have "Sell_Through_Rate row_A = Fin (7 / 27)" by (simp add: row_A_def)
  moreover have "\<bar>7 / 27 - 2593 / 10000\<bar> < (1 / 10000 :: real)" by simp
  ultimately have 4: "\<exists>x. Sell_Through_Rate row_A = Fin x \<and> \<bar>x - 2593 / 10000\<bar> < 1 / 10000"
    by blast
  have "\<bar>logistic (- (2 / 21)) * 100 - 476 / 10\<bar> < 5 / 100"
    using logistic_A_bounds unfolding abs_less_iff by linarith
  then have 5: "\<exists>b. Death_Risk_Base row_A = Fin b \<and> \<bar>b - 476 / 10\<bar> < 5 / 100"
    and 6: "\<exists>x. Death_Risk_Score row_A = Fin x \<and> \<bar>x - 476 / 10\<bar> < 5 / 100"
    by (simp_all add: row_A_def)
  from 1 2 3 4 5 6 show ?thesis by blast
qed

section \<open>Row count\<close>

text \<open>
  The left merge returns one row per inventory row as long as no two identifiers of the
  sales table have the same string form; this is so, in particular, when all of them
  are texts.
\<close>

lemma distinct_int_keys: "distinct ks \<Longrightarrow> distinct (int_keys ks)"
  by (induction ks rule: int_keys.induct) (simp_all add: set_int_keys)

lemma distinct_str_keys: "distinct ks \<Longrightarrow> distinct (str_keys ks)"
  by (induction ks rule: str_keys.induct) (simp_all add: set_str_keys)

lemma distinct_sort_mixed:
  assumes "distinct ks"
  shows "distinct (sort_mixed ks)"
proof -
  have "distinct (map KInt (sort (int_keys ks)))"
    using distinct_int_keys [OF assms] by (simp add: distinct_map inj_on_def)
  moreover have "distinct (map KStr (sort (str_keys ks)))"
    using distinct_str_keys [OF assms] by (simp add: distinct_map inj_on_def)
  moreover have "set (map KInt (sort (int_keys ks))) \<inter> set (map KStr (sort (str_keys ks))) = {}"
    by auto
  ultimately show ?thesis by (simp add: sort_mixed_def)
qed

lemma distinct_group_keys: "distinct (group_keys df)"
  by (simp add: group_keys_def distinct_sort_mixed)

lemma filter_distinct_key:
  "distinct (map f xs) \<Longrightarrow> length (filter (\<lambda>x. f x = k) xs) \<le> 1"
proof (induction xs)
  case Nil
  then show ?case by simp
next
  case (Cons x xs)
  show ?case
  proof (cases "f x = k")
    case True
    from Cons.prems have "f x \<notin> f ` set xs" by simp
    with True have "\<forall>y \<in> set xs. f y \<noteq> k" by blast
    then have "filter (\<lambda>x. f x = k) xs = []" by (simp add: filter_empty_conv)
    with True show ?thesis by simp
  next
    case False
    with Cons show ?thesis by simp
  qed
qed

lemma merge_row_single:
  assumes "distinct (map g_SKU grouped)"
  shows "length (merge_row grouped i) = 1"
proof (cases "filter (\<lambda>g. g_SKU g = SKU i) grouped")
  case Nil
  then show ?thesis by (simp add: merge_row_def)
next
  case (Cons a as)
  moreover from filter_distinct_key [OF assms, of "SKU i"] Cons have "as = []" by simp
  ultimately show ?thesis by (simp add: merge_row_def)
qed

lemma length_concat_singletons:
  "(\<forall>x \<in> set xs. length (f x) = 1) \<Longrightarrow> length (concat (map f xs)) = length xs"
  by (induction xs) simp_all

lemma rollup_keys:
  "map g_SKU (map (\<lambda>g. g\<lparr>g_SKU := astype_str (g_SKU g)\<rparr>) (groupby_agg df)) =
   map astype_str (group_keys df)"
  by (simp add: groupby_agg_def g_SKU_aggregate_group comp_def)

lemma row_count_when_keys_distinct:
  assumes "inj_on astype_str (s_SKU ` set sales_df)"
    and "process_inventory parse sales_df inventory_df = (s', i', Inr out)"
  shows "length out = length inventory_df"
proof -
  let ?grouped = "map (\<lambda>g. g\<lparr>g_SKU := astype_str (g_SKU g)\<rparr>) (groupby_agg (parse_dates parse sales_df))"
  from assms(1) have "inj_on astype_str (set (group_keys (parse_dates parse sales_df)))"
    by (simp add: set_group_keys keys_parse_dates)
  then have "distinct (map astype_str (group_keys (parse_dates parse sales_df)))"
    by (simp add: distinct_map distinct_group_keys)
  then have d: "distinct (map g_SKU ?grouped)"
    by (simp only: rollup_keys)
  have "length (merge_left (stringify_skus inventory_df) ?grouped) = length (stringify_skus inventory_df)"
    unfolding merge_left_def
    by (rule length_concat_singletons) (simp add: merge_row_single [OF d])
  then have m: "length (merged_table parse sales_df inventory_df) = length inventory_df"
    by (simp add: merged_table_def stringify_skus_def)
  from assms(2) have "collect (map derive (merged_table parse sales_df inventory_df)) = Inr out"
    by (rule process_inventory_Inr_D(1))
  then have "map derive (merged_table parse sales_df inventory_df) = map Inr out"
    by (rule collect_Inr_D)
  then have "length (merged_table parse sales_df inventory_df) = length out"
    by (rule map_eq_imp_length_eq)
  with m show ?thesis by simp
qed

lemma row_count_text_identifiers:
  assumes "\<forall>s \<in> set sales_df. \<exists>t. s_SKU s = KStr t"
    and "process_inventory parse sales_df inventory_df = (s', i', Inr out)"
  shows "length out = length inventory_df"
proof -
  have "inj_on astype_str (s_SKU ` set sales_df)"
  proof (rule inj_onI)
    fix a b assume "a \<in> s_SKU ` set sales_df" "b \<in> s_SKU ` set sales_df"
      and e: "astype_str a = astype_str b"
    with assms(1) have "\<exists>t. a = KStr t" and "\<exists>u. b = KStr u" by auto
    then obtain t u where "a = KStr t" "b = KStr u" by blast
    with e show "a = b" by simp
  qed
  then show ?thesis using assms(2) by (rule row_count_when_keys_distinct)
qed

text \<open>
  Claim C2.  The returned table should have one row per inventory row.  On a sales sheet
  that holds the identifier 101 once as a number and once as a text, the groups are
  formed before the identifiers are turned into strings, so the rollup has two rows of
  key \<open>''101''\<close> and the single inventory row comes out twice.
\<close>

theorem mixed_identifiers_duplicate_rows:
  "length inventory_mixed = 1 \<and>
   map_option length (returned (process_inventory no_parse sales_mixed inventory_mixed)) = Some 2 \<and>
   map_option (map SKU) (returned (process_inventory no_parse sales_mixed inventory_mixed)) =
     Some [KStr ''101'', KStr ''101''] \<and>
   map_option (map Total_Units_Sold)
     (returned (process_inventory no_parse sales_mixed inventory_mixed)) = Some [Fin 5, Fin 3]"
  using run_mixed_length run_mixed_rows by (simp add: inventory_mixed_def)

end
